theory Spec2Isabelle
  imports Complex_Main
begin

section \<open>Data model (src/types)\<close>

text \<open>
  JavaScript numbers are modelled as exact reals, a \<^verbatim>\<open>Date\<close> as its
  \<^verbatim>\<open>getTime()\<close> value (an integer number of milliseconds), and the one
  place where the code produces \<^verbatim>\<open>Infinity\<close> on purpose
  (\<^verbatim>\<open>calculateTravelSpeed\<close>) as a separate constructor. The four factors are
  computed in exact arithmetic. The weighted sum that \<^verbatim>\<open>Math.round\<close> turns
  into the overall score is computed as the code does, in IEEE double precision: each
  product and each sum is rounded to the nearest double, since there a rounding error
  can change the integer returned. The detector's configuration is a finite number in
  every field; the divisions follow JavaScript for a positive
  \<^verbatim>\<open>maxTravelSpeed\<close> and a \<^verbatim>\<open>bruteForceThreshold\<close> other than 0
  (a division by zero gives \<^verbatim>\<open>Infinity\<close> or \<^verbatim>\<open>NaN\<close> there), and
  the theorems that depend on them say so.
\<close>

record LoginAttempt =
  userId :: string
  timestamp :: int
  ipAddress :: string
  success :: bool
  userAgent :: "string option"
  sessionId :: "string option"

record GeoLocation =
  country :: string
  region :: string
  city :: string
  latitude :: real
  longitude :: real

record RiskFactors =
  locationChange :: real
  impossibleTravel :: real
  bruteForce :: real
  unusualTime :: real

datatype RiskLevel = Low | Medium | High | Critical

record RiskAssessment =
  userId_ra :: string
  timestamp_ra :: int
  overallRisk :: int
  riskLevel :: RiskLevel
  factors :: RiskFactors
  recommendations :: "string list"
  details :: "string list"

record UserProfile =
  userId_up :: string
  loginHistory :: "LoginAttempt list"
  typicalLocations :: "GeoLocation list"
  typicalLoginHours :: "nat list"
  lastSuccessfulLogin :: "LoginAttempt option"
  failedAttempts :: "LoginAttempt list"

record RiskThresholds =
  low :: real
  medium :: real
  high :: real
  critical :: real

record DetectorConfig =
  maxTravelSpeed :: real
  bruteForceWindow :: real
  bruteForceThreshold :: real
  locationChangeThreshold :: real
  riskThresholds :: RiskThresholds

text \<open>src/utils/config.ts\<close>

definition defaultConfig :: DetectorConfig where
  "defaultConfig =
     \<lparr> maxTravelSpeed = 900,
       bruteForceWindow = 30,
       bruteForceThreshold = 5,
       locationChangeThreshold = 100,
       riskThresholds = \<lparr> low = 30, medium = 50, high = 70, critical = 85 \<rparr> \<rparr>"

section \<open>The environment: libraries and built-ins the code calls\<close>

text \<open>
  What \<^verbatim>\<open>geoip.lookup\<close> returns for an address (the fields the code reads), the
  offset of local time from UTC at an instant (\<^verbatim>\<open>getHours\<close> of date-fns reads the
  local hour), and JavaScript's conversion of a number to a string in a template literal
  are parameters of the model.
\<close>

record GeoIpRecord =
  geo_country :: string
  geo_region :: string
  geo_city :: string
  geo_ll :: "real \<times> real"

record Env =
  lookup :: "string \<Rightarrow> GeoIpRecord option"
  localOffsetMs :: "int \<Rightarrow> int"
  numToString :: "real \<Rightarrow> string"

datatype jsnum = Fin real | Infinity

definition Math_round :: "real \<Rightarrow> int" where
  "Math_round x = \<lfloor>x + 1 / 2\<rfloor>"

definition Math_min :: "real \<Rightarrow> real \<Rightarrow> real" where
  "Math_min x y = (if y < x then y else x)"

text \<open>
  IEEE 754 double precision, for values in the normal range (far from overflow and from
  the subnormal numbers, as every value of the weighted sum is): a real number is rounded
  to the nearest multiple of its unit in the last place, 2 to the power of its binary
  exponent minus 52, and a tie goes to the even multiple. A decimal literal denotes the
  double nearest to it; a product and a sum are the rounded exact results.
\<close>

definition roundHalfEven :: "real \<Rightarrow> int" where
  "roundHalfEven r =
     (let f = \<lfloor>r\<rfloor>
      in if r - of_int f < 1 / 2 then f
         else if 1 / 2 < r - of_int f then f + 1
         else if even f then f else f + 1)"

definition toDouble :: "real \<Rightarrow> real" where
  "toDouble x =
     (if x = 0 then 0
      else (let e = \<lfloor>log 2 \<bar>x\<bar>\<rfloor>;
                ulp = 2 powr (of_int e - 52)
            in ulp * of_int (roundHalfEven (x / ulp))))"

definition double_mul :: "real \<Rightarrow> real \<Rightarrow> real" where
  "double_mul x y = toDouble (x * y)"

definition double_add :: "real \<Rightarrow> real \<Rightarrow> real" where
  "double_add x y = toDouble (x + y)"

definition Math_atan2 :: "real \<Rightarrow> real \<Rightarrow> real" where
  "Math_atan2 y x =
     (if 0 < x then arctan (y / x)
      else if x < 0 then (if 0 \<le> y then arctan (y / x) + pi else arctan (y / x) - pi)
      else if 0 < y then pi / 2
      else if y < 0 then - (pi / 2)
      else 0)"

text \<open>
  date-fns 2.30.0: \<^verbatim>\<open>differenceInHours\<close> and \<^verbatim>\<open>differenceInMinutes\<close> divide the
  difference in milliseconds by the length of the unit and round with the default
  method \<^verbatim>\<open>trunc\<close> (\<^verbatim>\<open>value < 0 ? Math.ceil(value) : Math.floor(value)\<close>).
\<close>

definition roundingTrunc :: "real \<Rightarrow> int" where
  "roundingTrunc v = (if v < 0 then \<lceil>v\<rceil> else \<lfloor>v\<rfloor>)"

definition differenceInHours :: "int \<Rightarrow> int \<Rightarrow> int" where
  "differenceInHours dateLeft dateRight =
     roundingTrunc (real_of_int (dateLeft - dateRight) / 3600000)"

definition differenceInMinutes :: "int \<Rightarrow> int \<Rightarrow> int" where
  "differenceInMinutes dateLeft dateRight =
     roundingTrunc (real_of_int (dateLeft - dateRight) / 60000)"

definition getHours :: "Env \<Rightarrow> int \<Rightarrow> nat" where
  "getHours env date = nat (((date + localOffsetMs env date) div 3600000) mod 24)"

section \<open>src/utils/geoLocation.ts\<close>

definition getLocationFromIP :: "Env \<Rightarrow> string \<Rightarrow> GeoLocation option" where
  "getLocationFromIP env ip =
     (case lookup env ip of
        None \<Rightarrow> None
      | Some geo \<Rightarrow>
          Some \<lparr> country = geo_country geo,
                 region = geo_region geo,
                 city = (if geo_city geo = [] then ''Unknown'' else geo_city geo),
                 latitude = fst (geo_ll geo),
                 longitude = snd (geo_ll geo) \<rparr>)"

definition toRadians :: "real \<Rightarrow> real" where
  "toRadians degrees = degrees * (pi / 180)"

definition calculateDistance :: "real \<Rightarrow> real \<Rightarrow> real \<Rightarrow> real \<Rightarrow> real" where
  "calculateDistance lat1 lon1 lat2 lon2 =
     (let R = 6371;
          dLat = toRadians (lat2 - lat1);
          dLon = toRadians (lon2 - lon1);
          a = sin (dLat / 2) * sin (dLat / 2) +
              cos (toRadians lat1) * cos (toRadians lat2) * sin (dLon / 2) * sin (dLon / 2);
          c = 2 * Math_atan2 (sqrt a) (sqrt (1 - a))
      in R * c)"

definition calculateTravelSpeed :: "GeoLocation \<Rightarrow> GeoLocation \<Rightarrow> int \<Rightarrow> jsnum" where
  "calculateTravelSpeed location1 location2 timeInHours =
     (if timeInHours = 0 then Infinity
      else Fin (calculateDistance (latitude location1) (longitude location1)
                                  (latitude location2) (longitude location2)
                / real_of_int timeInHours))"

section \<open>src/utils/timeAnalysis.ts\<close>

definition getTimeDifferenceInHours :: "int \<Rightarrow> int \<Rightarrow> int" where
  "getTimeDifferenceInHours date1 date2 = \<bar>differenceInHours date1 date2\<bar>"

definition getTimeDifferenceInMinutes :: "int \<Rightarrow> int \<Rightarrow> int" where
  "getTimeDifferenceInMinutes date1 date2 = \<bar>differenceInMinutes date1 date2\<bar>"

definition getHourOfDay :: "Env \<Rightarrow> int \<Rightarrow> nat" where
  "getHourOfDay env date = getHours env date"

text \<open>
  The object \<^verbatim>\<open>hourCounts\<close> is a map from hour to count; an hour never seen has no
  entry (\<^verbatim>\<open>undefined >= threshold\<close> is false), and \<^verbatim>\<open>Object.keys\<close> lists
  integer keys in ascending order.
\<close>

fun countHours :: "Env \<Rightarrow> LoginAttempt list \<Rightarrow> (nat \<rightharpoonup> nat) \<Rightarrow> (nat \<rightharpoonup> nat)" where
  "countHours env [] hourCounts = hourCounts"
| "countHours env (login # rest) hourCounts =
     (let hour = getHourOfDay env (timestamp login)
      in countHours env rest
           (hourCounts(hour \<mapsto> (case hourCounts hour of None \<Rightarrow> 0 | Some n \<Rightarrow> n) + 1)))"

definition calculateTypicalLoginHours :: "Env \<Rightarrow> LoginAttempt list \<Rightarrow> nat list" where
  "calculateTypicalLoginHours env history =
     (let hourCounts = countHours env history Map.empty;
          totalLogins = length history;
          threshold = real totalLogins * (1 / 10);
          typicalHours =
            filter (\<lambda>hour. case hourCounts hour of None \<Rightarrow> False
                                                  | Some n \<Rightarrow> threshold \<le> real n) [0..<24]
      in if length typicalHours = 0
         then filter (\<lambda>hour. hourCounts hour \<noteq> None) [0..<24]
         else typicalHours)"

definition isUnusualLoginTime :: "Env \<Rightarrow> int \<Rightarrow> nat list \<Rightarrow> bool" where
  "isUnusualLoginTime env loginTime typicalHours =
     (if length typicalHours = 0 then False
      else (let hour = getHourOfDay env loginTime in hour \<notin> set typicalHours))"

definition getFailedAttemptsInWindow ::
    "LoginAttempt list \<Rightarrow> int \<Rightarrow> real \<Rightarrow> LoginAttempt list" where
  "getFailedAttemptsInWindow attempts currentTime windowMinutes =
     filter (\<lambda>attempt.
               if success attempt then False
               else (let timeDiff = getTimeDifferenceInMinutes (timestamp attempt) currentTime
                     in real_of_int timeDiff \<le> windowMinutes))
            attempts"

section \<open>src/core/detector.ts\<close>

text \<open>
  The class \<^verbatim>\<open>SuspiciousLoginDetector\<close> holds its configuration and the map of
  user profiles. A method that mutates a profile returns the updated profile next to
  its result. The constructor's argument is a configuration with every field given
  (the spread over \<^verbatim>\<open>defaultConfig\<close> then yields the argument), or none.
\<close>

record Detector =
  config :: DetectorConfig
  userProfiles :: "string \<rightharpoonup> UserProfile"

definition newDetector :: "DetectorConfig option \<Rightarrow> Detector" where
  "newDetector cfg =
     \<lparr> config = (case cfg of Some c \<Rightarrow> c | None \<Rightarrow> defaultConfig),
       userProfiles = Map.empty \<rparr>"

definition getUserProfile :: "Detector \<Rightarrow> string \<Rightarrow> UserProfile \<times> Detector" where
  "getUserProfile d uid =
     (case userProfiles d uid of
        None \<Rightarrow>
          (let fresh = \<lparr> userId_up = uid, loginHistory = [], typicalLocations = [],
                         typicalLoginHours = [], lastSuccessfulLogin = None,
                         failedAttempts = [] \<rparr>
           in (fresh, d\<lparr>userProfiles := (userProfiles d)(uid \<mapsto> fresh)\<rparr>))
      | Some profile \<Rightarrow> (profile, d))"

definition calculateLocationChangeRisk ::
    "Env \<Rightarrow> LoginAttempt \<Rightarrow> UserProfile \<Rightarrow> real \<times> UserProfile" where
  "calculateLocationChangeRisk env attempt profile =
     (case getLocationFromIP env (ipAddress attempt) of
        None \<Rightarrow> (0, profile)
      | Some currentLocation \<Rightarrow>
          if length (loginHistory profile) = 0
          then (0, profile\<lparr>typicalLocations := typicalLocations profile @ [currentLocation]\<rparr>)
          else
            (let isTypicalLocation =
                   list_ex (\<lambda>loc. country loc = country currentLocation \<and>
                                   city loc = city currentLocation)
                           (typicalLocations profile)
             in if isTypicalLocation then (0, profile)
                else (40, profile\<lparr>typicalLocations :=
                                     typicalLocations profile @ [currentLocation]\<rparr>)))"

text \<open>
  \<^verbatim>\<open>Infinity\<close> exceeds every finite \<^verbatim>\<open>maxTravelSpeed\<close>; divided by a positive
  \<^verbatim>\<open>maxTravelSpeed\<close> it stays \<^verbatim>\<open>Infinity\<close>, and \<^verbatim>\<open>Math.min(100, Infinity)\<close>
  is 100.
\<close>

definition calculateImpossibleTravelRisk ::
    "Env \<Rightarrow> DetectorConfig \<Rightarrow> LoginAttempt \<Rightarrow> UserProfile \<Rightarrow> real" where
  "calculateImpossibleTravelRisk env cfg attempt profile =
     (case lastSuccessfulLogin profile of
        None \<Rightarrow> 0
      | Some previous \<Rightarrow>
          (case getLocationFromIP env (ipAddress attempt) of
             None \<Rightarrow> 0
           | Some currentLocation \<Rightarrow>
               (case getLocationFromIP env (ipAddress previous) of
                  None \<Rightarrow> 0
                | Some previousLocation \<Rightarrow>
                    if city currentLocation = city previousLocation \<and>
                       country currentLocation = country previousLocation
                    then 0
                    else
                      (let timeDiff = getTimeDifferenceInHours (timestamp previous)
                                                               (timestamp attempt);
                           requiredSpeed = calculateTravelSpeed previousLocation
                                                                currentLocation timeDiff
                       in case requiredSpeed of
                            Infinity \<Rightarrow> 100
                          | Fin speed \<Rightarrow>
                              if speed > maxTravelSpeed cfg
                              then (let speedRatio = speed / maxTravelSpeed cfg
                                    in Math_min 100 (60 + (speedRatio - 1) * 40))
                              else if speed > maxTravelSpeed cfg * (7 / 10) then 30
                              else 0))))"

definition calculateBruteForceRisk :: "DetectorConfig \<Rightarrow> LoginAttempt \<Rightarrow> UserProfile \<Rightarrow> real" where
  "calculateBruteForceRisk cfg attempt profile =
     (let recentFailures = getFailedAttemptsInWindow (failedAttempts profile)
                             (timestamp attempt) (bruteForceWindow cfg);
          failureCount = real (length recentFailures)
      in if failureCount \<ge> bruteForceThreshold cfg
         then (let ratio = failureCount / bruteForceThreshold cfg
               in Math_min 100 (70 + (ratio - 1) * 30))
         else if failureCount \<ge> bruteForceThreshold cfg * (7 / 10) then 40
         else 0)"

definition calculateUnusualTimeRisk ::
    "Env \<Rightarrow> LoginAttempt \<Rightarrow> UserProfile \<Rightarrow> real \<times> UserProfile" where
  "calculateUnusualTimeRisk env attempt profile =
     (let successfulLogins = filter success (loginHistory profile)
      in if length successfulLogins < 10 then (0, profile)
         else
           (let typicalHours = calculateTypicalLoginHours env successfulLogins;
                profile' = profile\<lparr>typicalLoginHours := typicalHours\<rparr>
            in if isUnusualLoginTime env (timestamp attempt) typicalHours
               then (35, profile')
               else (0, profile')))"

text \<open>The object literal evaluates its four properties in the order written.\<close>

definition calculateRiskFactors ::
    "Env \<Rightarrow> DetectorConfig \<Rightarrow> LoginAttempt \<Rightarrow> UserProfile \<Rightarrow> RiskFactors \<times> UserProfile" where
  "calculateRiskFactors env cfg attempt profile =
     (let (lc, profile1) = calculateLocationChangeRisk env attempt profile;
          it = calculateImpossibleTravelRisk env cfg attempt profile1;
          bf = calculateBruteForceRisk cfg attempt profile1;
          (ut, profile2) = calculateUnusualTimeRisk env attempt profile1
      in (\<lparr> locationChange = lc, impossibleTravel = it, bruteForce = bf, unusualTime = ut \<rparr>,
          profile2))"

text \<open>
  The sum of the four products is evaluated from left to right, in double precision.
\<close>

definition calculateOverallRisk :: "RiskFactors \<Rightarrow> int" where
  "calculateOverallRisk fs =
     (let score =
            double_add
              (double_add
                 (double_add (double_mul (locationChange fs) (toDouble (2 / 10)))
                             (double_mul (impossibleTravel fs) (toDouble (4 / 10))))
                 (double_mul (bruteForce fs) (toDouble (3 / 10))))
              (double_mul (unusualTime fs) (toDouble (1 / 10)))
      in Math_round score)"

definition determineRiskLevel :: "DetectorConfig \<Rightarrow> real \<Rightarrow> RiskLevel" where
  "determineRiskLevel cfg score =
     (let thresholds = riskThresholds cfg
      in if score \<ge> critical thresholds then Critical
         else if score \<ge> high thresholds then High
         else if score \<ge> medium thresholds then Medium
         else Low)"

definition generateRecommendations :: "RiskFactors \<Rightarrow> RiskLevel \<Rightarrow> string list" where
  "generateRecommendations fs level =
     (let r1 = (if level = Critical \<or> level = High
                then [''Block login attempt and require additional verification''] else []);
          r2 = r1 @ (if impossibleTravel fs > 50
                     then [''Send alert for impossible travel detection'',
                           ''Require multi-factor authentication''] else []);
          r3 = r2 @ (if bruteForce fs > 50
                     then [''Implement temporary account lockout'',
                           ''Alert user of potential brute force attack''] else []);
          r4 = r3 @ (if locationChange fs > 30
                     then [''Send notification to user about new location login''] else []);
          r5 = r4 @ (if unusualTime fs > 30
                     then [''Consider requiring additional verification for unusual login times'']
                     else []);
          r6 = r5 @ (if level = Medium
                     then [''Monitor this user for additional suspicious activity''] else [])
      in if length r6 = 0 then [''Login appears legitimate - allow access''] else r6)"

definition generateDetails ::
    "Env \<Rightarrow> DetectorConfig \<Rightarrow> LoginAttempt \<Rightarrow> UserProfile \<Rightarrow> RiskFactors \<Rightarrow> string list" where
  "generateDetails env cfg attempt profile fs =
     (let d1 = (case getLocationFromIP env (ipAddress attempt) of
                  None \<Rightarrow> []
                | Some currentLocation \<Rightarrow>
                    [''Login from: '' @ city currentLocation @ '', '' @ country currentLocation]);
          d2 = d1 @ (if locationChange fs > 0
                     then [''New location detected (Risk: '' @
                           numToString env (locationChange fs) @ '')''] else []);
          d3 = d2 @ (if impossibleTravel fs > 0
                     then [''Impossible travel detected (Risk: '' @
                           numToString env (impossibleTravel fs) @ '')''] @
                          (case lastSuccessfulLogin profile of
                             None \<Rightarrow> []
                           | Some previous \<Rightarrow>
                               (case getLocationFromIP env (ipAddress previous) of
                                  None \<Rightarrow> []
                                | Some prevLocation \<Rightarrow>
                                    [''Previous login from: '' @ city prevLocation @ '', '' @
                                     country prevLocation]))
                     else []);
          d4 = d3 @ (if bruteForce fs > 0
                     then (let recentFailures =
                                 getFailedAttemptsInWindow (failedAttempts profile)
                                   (timestamp attempt) (bruteForceWindow cfg)
                           in [numToString env (real (length recentFailures)) @
                               '' failed login attempts in last '' @
                               numToString env (bruteForceWindow cfg) @
                               '' minutes (Risk: '' @ numToString env (bruteForce fs) @ '')''])
                     else []);
          d5 = d4 @ (if unusualTime fs > 0
                     then [''Login at unusual time (Risk: '' @
                           numToString env (unusualTime fs) @ '')''] else [])
      in d5)"

definition analyzeLogin :: "Env \<Rightarrow> Detector \<Rightarrow> LoginAttempt \<Rightarrow> RiskAssessment \<times> Detector" where
  "analyzeLogin env d attempt =
     (let (profile0, d0) = getUserProfile d (userId attempt);
          profile1 = profile0\<lparr>loginHistory := loginHistory profile0 @ [attempt]\<rparr>;
          profile2 = (if \<not> success attempt
                      then profile1\<lparr>failedAttempts := failedAttempts profile1 @ [attempt]\<rparr>
                      else profile1\<lparr>lastSuccessfulLogin := Some attempt\<rparr>);
          (fs, profile3) = calculateRiskFactors env (config d0) attempt profile2;
          overall = calculateOverallRisk fs;
          level = determineRiskLevel (config d0) (real_of_int overall);
          recs = generateRecommendations fs level;
          dets = generateDetails env (config d0) attempt profile3 fs
      in (\<lparr> userId_ra = userId attempt,
            timestamp_ra = timestamp attempt,
            overallRisk = overall,
            riskLevel = level,
            factors = fs,
            recommendations = recs,
            details = dets \<rparr>,
          d0\<lparr>userProfiles := (userProfiles d0)(userId attempt \<mapsto> profile3)\<rparr>))"

fun analyzeMultiple :: "Env \<Rightarrow> Detector \<Rightarrow> LoginAttempt list \<Rightarrow> RiskAssessment list \<times> Detector" where
  "analyzeMultiple env d [] = ([], d)"
| "analyzeMultiple env d (attempt # rest) =
     (let (assessment, d1) = analyzeLogin env d attempt;
          (results, d2) = analyzeMultiple env d1 rest
      in (assessment # results, d2))"

section \<open>Notions used to state the properties\<close>

text \<open>The order low < medium < high < critical on risk levels.\<close>

fun levelRank :: "RiskLevel \<Rightarrow> nat" where
  "levelRank Low = 0"
| "levelRank Medium = 1"
| "levelRank High = 2"
| "levelRank Critical = 3"

text \<open>
  The login history and the failed attempts a user has before an attempt is analysed
  (none for a user without a profile).
\<close>

definition priorHistory :: "Detector \<Rightarrow> string \<Rightarrow> LoginAttempt list" where
  "priorHistory d uid = (case userProfiles d uid of None \<Rightarrow> [] | Some p \<Rightarrow> loginHistory p)"

definition priorFailedAttempts :: "Detector \<Rightarrow> string \<Rightarrow> LoginAttempt list" where
  "priorFailedAttempts d uid =
     (case userProfiles d uid of None \<Rightarrow> [] | Some p \<Rightarrow> failedAttempts p)"

text \<open>
  The profile on which the four calculators run: the user's profile (a fresh one for an
  unknown user) with the current attempt already appended, as the first lines of
  \<^verbatim>\<open>analyzeLogin\<close> leave it.
\<close>

definition profileWithAttempt :: "Detector \<Rightarrow> LoginAttempt \<Rightarrow> UserProfile" where
  "profileWithAttempt d attempt =
     (let profile0 = fst (getUserProfile d (userId attempt));
          profile1 = profile0\<lparr>loginHistory := loginHistory profile0 @ [attempt]\<rparr>
      in if \<not> success attempt
         then profile1\<lparr>failedAttempts := failedAttempts profile1 @ [attempt]\<rparr>
         else profile1\<lparr>lastSuccessfulLogin := Some attempt\<rparr>)"

text \<open>No two typical locations agree on country and city.\<close>

definition dedupLocations :: "UserProfile \<Rightarrow> bool" where
  "dedupLocations p = distinct (map (\<lambda>loc. (country loc, city loc)) (typicalLocations p))"

text \<open>
  The impossible-travel factor in the words of the specification: the elapsed time is
  the absolute difference of the two timestamps, measured in hours, and the speed is the
  distance divided by it (unbounded when no time has elapsed).
\<close>

definition impossibleTravel_spec ::
    "DetectorConfig \<Rightarrow> GeoLocation \<Rightarrow> GeoLocation \<Rightarrow> int \<Rightarrow> int \<Rightarrow> real" where
  "impossibleTravel_spec cfg previousLocation currentLocation previousTime currentTime =
     (let hours = \<bar>real_of_int (previousTime - currentTime)\<bar> / 3600000
      in if hours = 0 then 100
         else
           (let speed = calculateDistance (latitude previousLocation) (longitude previousLocation)
                                          (latitude currentLocation) (longitude currentLocation)
                        / hours
            in if speed > maxTravelSpeed cfg
               then min 100 (60 + (speed / maxTravelSpeed cfg - 1) * 40)
               else if speed > 0.7 * maxTravelSpeed cfg then 30
               else 0))"

text \<open>
  The brute-force factor in the words of the specification: the failed attempts counted
  are those whose timestamp differs from the current one by at most the window.
\<close>

definition bruteForce_spec :: "DetectorConfig \<Rightarrow> LoginAttempt list \<Rightarrow> int \<Rightarrow> real" where
  "bruteForce_spec cfg failed currentTime =
     (let count = real (length (filter
                    (\<lambda>f. \<not> success f \<and>
                         \<bar>real_of_int (timestamp f - currentTime)\<bar> \<le> bruteForceWindow cfg * 60000)
                    failed))
      in if count \<ge> bruteForceThreshold cfg
         then min 100 (70 + (count / bruteForceThreshold cfg - 1) * 30)
         else if count \<ge> 0.7 * bruteForceThreshold cfg then 40
         else 0)"

text \<open>
  The whole units of time the code measures: the absolute difference of two timestamps,
  in whole hours and in whole minutes.
\<close>

definition wholeHours :: "int \<Rightarrow> int \<Rightarrow> int" where
  "wholeHours t1 t2 = \<bar>t1 - t2\<bar> div 3600000"

definition wholeMinutes :: "int \<Rightarrow> int \<Rightarrow> int" where
  "wholeMinutes t1 t2 = \<bar>t1 - t2\<bar> div 60000"

text \<open>
  The typical hours in the words of the specification: the hours whose count is at least
  10% of the logins, or every hour with a login when no hour reaches that.
\<close>

definition hourCount :: "Env \<Rightarrow> LoginAttempt list \<Rightarrow> nat \<Rightarrow> nat" where
  "hourCount env logins h = length (filter (\<lambda>l. getHourOfDay env (timestamp l) = h) logins)"

definition typicalHours_spec :: "Env \<Rightarrow> LoginAttempt list \<Rightarrow> nat set" where
  "typicalHours_spec env logins =
     (let significant = {h. real (hourCount env logins h) \<ge> 0.1 * real (length logins)}
      in if significant = {} then {h. hourCount env logins h > 0} else significant)"

text \<open>
  The weighted sum in the words of the specification, in exact arithmetic, and the sum
  the code computes in double precision.
\<close>

definition weightedSum :: "RiskFactors \<Rightarrow> real" where
  "weightedSum fs =
     0.2 * locationChange fs + 0.4 * impossibleTravel fs +
     0.3 * bruteForce fs + 0.1 * unusualTime fs"

definition doubleScore :: "RiskFactors \<Rightarrow> real" where
  "doubleScore fs =
     double_add
       (double_add
          (double_add (double_mul (locationChange fs) (toDouble (2 / 10)))
                      (double_mul (impossibleTravel fs) (toDouble (4 / 10))))
          (double_mul (bruteForce fs) (toDouble (3 / 10))))
       (double_mul (unusualTime fs) (toDouble (1 / 10)))"

section \<open>Sample data\<close>

text \<open>
  A resolver that knows three addresses, in three cities on the equator: Beta one degree
  of longitude east of Alpha, Gamma ninety degrees; local time is UTC.
\<close>

definition sampleLookup :: "string \<Rightarrow> GeoIpRecord option" where
  "sampleLookup ip =
     (if ip = ''198.51.100.1''
      then Some \<lparr> geo_country = ''AA'', geo_region = ''R1'', geo_city = ''Alpha'',
                  geo_ll = (0, 0) \<rparr>
      else if ip = ''198.51.100.2''
      then Some \<lparr> geo_country = ''AA'', geo_region = ''R2'', geo_city = ''Beta'',
                  geo_ll = (0, 1) \<rparr>
      else if ip = ''198.51.100.3''
      then Some \<lparr> geo_country = ''BB'', geo_region = ''R3'', geo_city = ''Gamma'',
                  geo_ll = (0, 90) \<rparr>
      else None)"

definition sampleEnv :: Env where
  "sampleEnv = \<lparr> lookup = sampleLookup, localOffsetMs = (\<lambda>t. 0), numToString = (\<lambda>x. ''#'') \<rparr>"

definition mkAttempt :: "string \<Rightarrow> int \<Rightarrow> string \<Rightarrow> bool \<Rightarrow> LoginAttempt" where
  "mkAttempt uid t ip ok =
     \<lparr> userId = uid, timestamp = t, ipAddress = ip, success = ok,
       userAgent = None, sessionId = None \<rparr>"

definition mkProfile ::
    "string \<Rightarrow> LoginAttempt list \<Rightarrow> GeoLocation list \<Rightarrow> LoginAttempt option \<Rightarrow> UserProfile" where
  "mkProfile uid history locations lastOk =
     \<lparr> userId_up = uid, loginHistory = history, typicalLocations = locations,
       typicalLoginHours = [], lastSuccessfulLogin = lastOk,
       failedAttempts = filter (\<lambda>l. \<not> success l) history \<rparr>"

definition alpha :: GeoLocation where
  "alpha = \<lparr> country = ''AA'', region = ''R1'', city = ''Alpha'', latitude = 0, longitude = 0 \<rparr>"

definition beta :: GeoLocation where
  "beta = \<lparr> country = ''AA'', region = ''R2'', city = ''Beta'', latitude = 0, longitude = 1 \<rparr>"

definition gamma :: GeoLocation where
  "gamma = \<lparr> country = ''BB'', region = ''R3'', city = ''Gamma'', latitude = 0, longitude = 90 \<rparr>"

text \<open>The detector after one successful login of alice from Alpha.\<close>

definition aliceProfile :: UserProfile where
  "aliceProfile = mkProfile ''alice'' [mkAttempt ''alice'' 0 ''198.51.100.1'' True] [alpha]
                    (Some (mkAttempt ''alice'' 0 ''198.51.100.1'' True))"

definition sampleDetector :: Detector where
  "sampleDetector = \<lparr> config = defaultConfig, userProfiles = [''alice'' \<mapsto> aliceProfile] \<rparr>"

text \<open>The detector after ten successful logins of dana, on ten days at 10:00.\<close>

definition danaLogins :: "LoginAttempt list" where
  "danaLogins =
     map (\<lambda>day. mkAttempt ''dana'' (36000000 + day * 86400000) ''198.51.100.1'' True)
         [0, 1, 2, 3, 4, 5, 6, 7, 8, 9]"

definition danaDetector :: Detector where
  "danaDetector = snd (analyzeMultiple sampleEnv (newDetector None) danaLogins)"

text \<open>The detector after five failed logins of carol within ten minutes.\<close>

definition carolFailures :: "LoginAttempt list" where
  "carolFailures =
     map (\<lambda>k. mkAttempt ''carol'' (k * 120000) ''198.51.100.1'' False) [0, 1, 2, 3, 4]"

definition carolDetector :: Detector where
  "carolDetector = snd (analyzeMultiple sampleEnv (newDetector None) carolFailures)"

text \<open>
  A detector configured with the brute-force threshold -1, after one failed login of
  mallory from an address that does not resolve.
\<close>

definition negativeThreshold :: DetectorConfig where
  "negativeThreshold = defaultConfig\<lparr>bruteForceThreshold := - 1\<rparr>"

definition malloryDetector :: Detector where
  "malloryDetector =
     snd (analyzeLogin sampleEnv (newDetector (Some negativeThreshold))
            (mkAttempt ''mallory'' 0 ''203.0.113.9'' False))"

section \<open>Double precision\<close>

lemma roundHalfEven_error: "\<bar>of_int (roundHalfEven r) - r\<bar> \<le> 1 / 2"
proof -
  have "of_int \<lfloor>r\<rfloor> \<le> r" "r < of_int \<lfloor>r\<rfloor> + 1" by linarith+
  then show ?thesis by (auto simp: roundHalfEven_def Let_def)
qed

lemma toDouble_error: "\<bar>toDouble x - x\<bar> \<le> \<bar>x\<bar> / 2 ^ 53"
proof (cases "x = 0")
  case True
  then show ?thesis by (simp add: toDouble_def)
next
  case False
  define e where "e = \<lfloor>log 2 \<bar>x\<bar>\<rfloor>"
  define u where "u = (2::real) powr (of_int e - 52)"
  have upos: "0 < u" by (simp add: u_def)
  have "of_int e \<le> log 2 \<bar>x\<bar>" by (simp add: e_def)
  then have "(2::real) powr (of_int e) \<le> 2 powr (log 2 \<bar>x\<bar>)" by simp
  then have le: "(2::real) powr (of_int e) \<le> \<bar>x\<bar>" using False by simp
  have "u = 2 powr (of_int e) * 2 powr (- 52)"
    by (simp add: u_def powr_add [symmetric])
  also have "(2::real) powr (- 52) = 1 / 2 ^ 52"
    by (simp add: powr_minus powr_numeral inverse_eq_divide)
  finally have u_eq: "u = 2 powr (of_int e) / 2 ^ 52" by simp
  have u_le: "u \<le> \<bar>x\<bar> / 2 ^ 52"
    unfolding u_eq using le by (simp add: divide_right_mono)
  have td: "toDouble x = u * of_int (roundHalfEven (x / u))"
    using False by (simp add: toDouble_def Let_def e_def u_def)
  have "toDouble x - x = u * (of_int (roundHalfEven (x / u)) - x / u)"
    using upos by (simp add: td algebra_simps)
  then have "\<bar>toDouble x - x\<bar> = u * \<bar>of_int (roundHalfEven (x / u)) - x / u\<bar>"
    using upos by (simp add: abs_mult)
  also have "\<dots> \<le> u * (1 / 2)"
    using roundHalfEven_error [of "x / u"] upos by (intro mult_left_mono) auto
  also have "\<dots> \<le> (\<bar>x\<bar> / 2 ^ 52) * (1 / 2)"
    using u_le by (intro mult_right_mono) auto
  finally show ?thesis by simp
qed






lemma double_mul_weight_error:
  assumes "\<bar>x\<bar> \<le> 1000" and "0 < c" and "c \<le> 1"
  shows "\<bar>double_mul x (toDouble c) - x * c\<bar> \<le> 1 / 2 ^ 40"
proof -
  define w where "w = toDouble c"
  define d where "d = (1::real) / 2 ^ 53"
  have d: "0 \<le> d" "d \<le> 1 / 1000"
    by (simp_all add: d_def)
  have d40: "1 / 2 ^ 40 = 8192 * d"
    by (simp add: d_def)
  have "\<bar>w - c\<bar> \<le> \<bar>c\<bar> / 2 ^ 53"
    unfolding w_def by (rule toDouble_error)
  also have "\<dots> \<le> 1 / 2 ^ 53"
    using assms(2,3) by (simp add: divide_right_mono)
  finally have hw: "\<bar>w - c\<bar> \<le> d" by (simp only: d_def)
  have "\<bar>x * w - x * c\<bar> = \<bar>x\<bar> * \<bar>w - c\<bar>"
    by (simp add: abs_mult flip: right_diff_distrib)
  also have "\<dots> \<le> 1000 * d"
    using assms(1) hw by (intro mult_mono) auto
  finally have h1: "\<bar>x * w - x * c\<bar> \<le> 1000 * d" .
  have "\<bar>x * c\<bar> = \<bar>x\<bar> * c" using assms(2) by (simp add: abs_mult)
  also have "\<dots> \<le> 1000 * 1"
    using assms by (intro mult_mono) auto
  finally have h2: "\<bar>x * c\<bar> \<le> 1000" by simp
  have xw: "\<bar>x * w\<bar> \<le> 1001"
    using h1 h2 d unfolding abs_le_iff by (intro conjI; linarith)
  have "\<bar>toDouble (x * w) - x * w\<bar> \<le> \<bar>x * w\<bar> / 2 ^ 53"
    by (rule toDouble_error)
  also have "\<dots> = \<bar>x * w\<bar> * d" by (simp add: d_def)
  also have "\<dots> \<le> 1001 * d"
    using xw d(1) by (intro mult_right_mono) auto
  finally have h3: "\<bar>toDouble (x * w) - x * w\<bar> \<le> 1001 * d" .
  have "\<bar>toDouble (x * w) - x * c\<bar> \<le> 8192 * d"
    using h1 h3 d unfolding abs_le_iff by (intro conjI; linarith)
  then show ?thesis
    unfolding double_mul_def w_def [symmetric] by (simp only: d40)
qed

lemma double_add_error:
  assumes "\<bar>a + b\<bar> \<le> 4096"
  shows "\<bar>double_add a b - (a + b)\<bar> \<le> 1 / 2 ^ 41"
proof -
  have "\<bar>toDouble (a + b) - (a + b)\<bar> \<le> \<bar>a + b\<bar> / 2 ^ 53"
    by (rule toDouble_error)
  also have "\<dots> \<le> 4096 / 2 ^ 53"
    using assms by (simp add: divide_right_mono)
  finally show ?thesis by (simp add: double_add_def)
qed

lemma calculateOverallRisk_doubleScore:
  "calculateOverallRisk fs = \<lfloor>doubleScore fs + 1 / 2\<rfloor>"
  by (simp add: calculateOverallRisk_def doubleScore_def Math_round_def Let_def)

lemma doubleScore_error:
  assumes "\<bar>locationChange fs\<bar> \<le> 1000" and "\<bar>impossibleTravel fs\<bar> \<le> 1000"
      and "\<bar>bruteForce fs\<bar> \<le> 1000" and "\<bar>unusualTime fs\<bar> \<le> 1000"
  shows "\<bar>doubleScore fs - weightedSum fs\<bar> \<le> 1 / 2 ^ 30"
proof -
  define p1 where "p1 = double_mul (locationChange fs) (toDouble (2 / 10))"
  define p2 where "p2 = double_mul (impossibleTravel fs) (toDouble (4 / 10))"
  define p3 where "p3 = double_mul (bruteForce fs) (toDouble (3 / 10))"
  define p4 where "p4 = double_mul (unusualTime fs) (toDouble (1 / 10))"
  define s1 where "s1 = double_add p1 p2"
  define s2 where "s2 = double_add s1 p3"
  define d where "d = (1::real) / 2 ^ 41"
  have d: "0 \<le> d" "d \<le> 1"
    by (simp_all add: d_def)
  have d40: "1 / 2 ^ 40 = 2 * d" and d30: "1 / 2 ^ 30 = 2048 * d"
    by (simp_all add: d_def)
  have e1: "\<bar>p1 - locationChange fs * (2 / 10)\<bar> \<le> 2 * d"
    unfolding p1_def d40 [symmetric] using assms(1) by (intro double_mul_weight_error) auto
  have e2: "\<bar>p2 - impossibleTravel fs * (4 / 10)\<bar> \<le> 2 * d"
    unfolding p2_def d40 [symmetric] using assms(2) by (intro double_mul_weight_error) auto
  have e3: "\<bar>p3 - bruteForce fs * (3 / 10)\<bar> \<le> 2 * d"
    unfolding p3_def d40 [symmetric] using assms(3) by (intro double_mul_weight_error) auto
  have e4: "\<bar>p4 - unusualTime fs * (1 / 10)\<bar> \<le> 2 * d"
    unfolding p4_def d40 [symmetric] using assms(4) by (intro double_mul_weight_error) auto
  have b1: "\<bar>p1 + p2\<bar> \<le> 4096"
    using e1 e2 assms(1,2) d unfolding abs_le_iff by (intro conjI; linarith)
  have a1: "\<bar>s1 - (p1 + p2)\<bar> \<le> d"
    unfolding s1_def d_def by (rule double_add_error [OF b1])
  have b2: "\<bar>s1 + p3\<bar> \<le> 4096"
    using a1 e1 e2 e3 assms(1,2,3) d unfolding abs_le_iff by (intro conjI; linarith)
  have a2: "\<bar>s2 - (s1 + p3)\<bar> \<le> d"
    unfolding s2_def d_def by (rule double_add_error [OF b2])
  have b3: "\<bar>s2 + p4\<bar> \<le> 4096"
    using a2 a1 e1 e2 e3 e4 assms d unfolding abs_le_iff by (intro conjI; linarith)
  have a3: "\<bar>double_add s2 p4 - (s2 + p4)\<bar> \<le> d"
    unfolding d_def by (rule double_add_error [OF b3])
  have ds: "doubleScore fs = double_add s2 p4"
    by (simp add: doubleScore_def s2_def s1_def p1_def p2_def p3_def p4_def)
  have ws: "weightedSum fs =
              locationChange fs * (2 / 10) + impossibleTravel fs * (4 / 10) +
              bruteForce fs * (3 / 10) + unusualTime fs * (1 / 10)"
    by (simp add: weightedSum_def)
  have "\<bar>double_add s2 p4 - weightedSum fs\<bar> \<le> 2048 * d"
    using a3 a2 a1 e1 e2 e3 e4 d unfolding ws abs_le_iff by (intro conjI; linarith)
  then show ?thesis by (simp only: ds d30)
qed

lemma calculateOverallRisk_exact:
  assumes "\<bar>locationChange fs\<bar> \<le> 1000" and "\<bar>impossibleTravel fs\<bar> \<le> 1000"
      and "\<bar>bruteForce fs\<bar> \<le> 1000" and "\<bar>unusualTime fs\<bar> \<le> 1000"
      and "1 / 2 ^ 30 < frac (weightedSum fs + 1 / 2)"
      and "frac (weightedSum fs + 1 / 2) < 1 - 1 / 2 ^ 30"
  shows "calculateOverallRisk fs = round (weightedSum fs)"
proof -
  let ?n = "\<lfloor>weightedSum fs + 1 / 2\<rfloor>"
  define d where "d = (1::real) / 2 ^ 30"
  have err: "\<bar>doubleScore fs - weightedSum fs\<bar> \<le> d"
    unfolding d_def by (rule doubleScore_error [OF assms(1-4)])
  have f5: "d < weightedSum fs + 1 / 2 - of_int ?n"
    using assms(5) by (simp only: frac_def d_def)
  have f6: "weightedSum fs + 1 / 2 - of_int ?n < 1 - d"
    using assms(6) by (simp only: frac_def d_def)
  have lo: "of_int ?n \<le> doubleScore fs + 1 / 2"
    using err f5 unfolding abs_le_iff by linarith
  have hi: "doubleScore fs + 1 / 2 < of_int ?n + 1"
    using err f6 unfolding abs_le_iff by linarith
  have "\<lfloor>doubleScore fs + 1 / 2\<rfloor> = ?n"
    using lo hi by (rule floor_unique)
  then show ?thesis
    by (simp add: calculateOverallRisk_doubleScore round_def)
qed


section \<open>Aggregation and classification\<close>




lemma determineRiskLevel_mono:
  "s \<le> s' \<Longrightarrow> levelRank (determineRiskLevel cfg s) \<le> levelRank (determineRiskLevel cfg s')"
  by (simp add: determineRiskLevel_def Let_def)

text \<open>
  C7. With strictly increasing thresholds, the risk level is a function of the score
  alone that checks the thresholds from the highest to the lowest, and a higher score
  never gets a lower level.
\<close>

theorem determineRiskLevel_step_monotone:
  assumes "low (riskThresholds cfg) < medium (riskThresholds cfg)"
      and "medium (riskThresholds cfg) < high (riskThresholds cfg)"
      and "high (riskThresholds cfg) < critical (riskThresholds cfg)"
      and "s \<le> s'"
  shows "determineRiskLevel cfg s =
           (if s \<ge> critical (riskThresholds cfg) then Critical
            else if s \<ge> high (riskThresholds cfg) then High
            else if s \<ge> medium (riskThresholds cfg) then Medium
            else Low)
         \<and> levelRank (determineRiskLevel cfg s) \<le> levelRank (determineRiskLevel cfg s')"
  using determineRiskLevel_mono [OF assms(4)] by (simp add: determineRiskLevel_def Let_def)

theorem determineRiskLevel_step_monotone_witness:
  "determineRiskLevel defaultConfig 60 = Medium
   \<and> levelRank (determineRiskLevel defaultConfig 60) \<le> levelRank (determineRiskLevel defaultConfig 90)"
proof -
  have inc: "low (riskThresholds defaultConfig) < medium (riskThresholds defaultConfig)"
            "medium (riskThresholds defaultConfig) < high (riskThresholds defaultConfig)"
            "high (riskThresholds defaultConfig) < critical (riskThresholds defaultConfig)"
    by (simp_all add: defaultConfig_def)
  have le: "(60::real) \<le> 90" by simp
  have "riskThresholds defaultConfig = \<lparr> low = 30, medium = 50, high = 70, critical = 85 \<rparr>"
    by (simp add: defaultConfig_def)
  with determineRiskLevel_step_monotone [OF inc le] show ?thesis
    by auto
qed

lemma determineRiskLevel_low_update:
  "determineRiskLevel (cfg\<lparr>riskThresholds := (riskThresholds cfg)\<lparr>low := x\<rparr>\<rparr>) s
     = determineRiskLevel cfg s"
  by (simp add: determineRiskLevel_def Let_def)

lemma calculateImpossibleTravelRisk_thresholds_update:
  "calculateImpossibleTravelRisk env (cfg\<lparr>riskThresholds := t\<rparr>) a p =
   calculateImpossibleTravelRisk env cfg a p"
  by (simp add: calculateImpossibleTravelRisk_def Let_def split: option.splits jsnum.splits)

lemma calculateBruteForceRisk_thresholds_update:
  "calculateBruteForceRisk (cfg\<lparr>riskThresholds := t\<rparr>) a p = calculateBruteForceRisk cfg a p"
  by (simp add: calculateBruteForceRisk_def Let_def)

lemma calculateRiskFactors_thresholds_update:
  "calculateRiskFactors env (cfg\<lparr>riskThresholds := t\<rparr>) a p = calculateRiskFactors env cfg a p"
  by (simp add: calculateRiskFactors_def calculateImpossibleTravelRisk_thresholds_update
                calculateBruteForceRisk_thresholds_update)

lemma generateDetails_thresholds_update:
  "generateDetails env (cfg\<lparr>riskThresholds := t\<rparr>) a p fs = generateDetails env cfg a p fs"
  by (simp add: generateDetails_def Let_def split: option.splits)

lemma getUserProfile_config_update:
  "getUserProfile (d\<lparr>config := c\<rparr>) u =
     (fst (getUserProfile d u), (snd (getUserProfile d u))\<lparr>config := c\<rparr>)"
  by (simp add: getUserProfile_def Let_def split: option.splits)

lemma getUserProfile_config: "config (snd (getUserProfile d u)) = config d"
  by (simp add: getUserProfile_def Let_def split: option.splits)

text \<open>
  C10. The risk level does not depend on the low threshold: a configuration that differs
  only there gives the same level for every score, and the detector the same assessment
  and the same profiles for every attempt.
\<close>

theorem determineRiskLevel_ignores_low:
  "determineRiskLevel (cfg\<lparr>riskThresholds := (riskThresholds cfg)\<lparr>low := x\<rparr>\<rparr>) s
     = determineRiskLevel cfg s
   \<and> fst (analyzeLogin env (d\<lparr>config := (config d)\<lparr>riskThresholds :=
                                   (riskThresholds (config d))\<lparr>low := x\<rparr>\<rparr>\<rparr>) a)
     = fst (analyzeLogin env d a)
   \<and> userProfiles (snd (analyzeLogin env (d\<lparr>config := (config d)\<lparr>riskThresholds :=
                                   (riskThresholds (config d))\<lparr>low := x\<rparr>\<rparr>\<rparr>) a))
     = userProfiles (snd (analyzeLogin env d a))"
  by (simp add: analyzeLogin_def getUserProfile_config_update getUserProfile_config
                determineRiskLevel_low_update calculateRiskFactors_thresholds_update
                generateDetails_thresholds_update split_beta Let_def)

section \<open>The detector state\<close>

lemma getUserProfile_userProfiles:
  "userProfiles (snd (getUserProfile d u)) = (userProfiles d)(u \<mapsto> fst (getUserProfile d u))"
  by (auto simp: getUserProfile_def Let_def split: option.splits)

lemma analyzeLogin_factors:
  "factors (fst (analyzeLogin env d a)) =
     fst (calculateRiskFactors env (config d) a (profileWithAttempt d a))"
  by (simp add: analyzeLogin_def profileWithAttempt_def getUserProfile_config split_beta Let_def)

lemma analyzeLogin_overallRisk:
  "overallRisk (fst (analyzeLogin env d a)) = calculateOverallRisk (factors (fst (analyzeLogin env d a)))"
  by (simp add: analyzeLogin_def split_beta Let_def)

lemma analyzeLogin_userProfiles:
  "userProfiles (snd (analyzeLogin env d a)) =
     (userProfiles d)(userId a \<mapsto>
        snd (calculateRiskFactors env (config d) a (profileWithAttempt d a)))"
  by (simp add: analyzeLogin_def profileWithAttempt_def getUserProfile_config
                getUserProfile_userProfiles split_beta Let_def)

lemma calculateLocationChangeRisk_keeps:
  "loginHistory (snd (calculateLocationChangeRisk env a p)) = loginHistory p"
  "failedAttempts (snd (calculateLocationChangeRisk env a p)) = failedAttempts p"
  "lastSuccessfulLogin (snd (calculateLocationChangeRisk env a p)) = lastSuccessfulLogin p"
  by (simp_all add: calculateLocationChangeRisk_def Let_def split: option.splits)

lemma calculateUnusualTimeRisk_keeps:
  "typicalLocations (snd (calculateUnusualTimeRisk env a p)) = typicalLocations p"
  by (simp add: calculateUnusualTimeRisk_def Let_def)

lemma calculateRiskFactors_locationChange:
  "locationChange (fst (calculateRiskFactors env cfg a p)) = fst (calculateLocationChangeRisk env a p)"
  by (simp add: calculateRiskFactors_def split_beta Let_def)

lemma calculateRiskFactors_typicalLocations:
  "typicalLocations (snd (calculateRiskFactors env cfg a p)) =
     typicalLocations (snd (calculateLocationChangeRisk env a p))"
  by (simp add: calculateRiskFactors_def split_beta Let_def calculateUnusualTimeRisk_keeps)

lemma profileWithAttempt_history:
  "loginHistory (profileWithAttempt d a) = priorHistory d (userId a) @ [a]"
  by (simp add: profileWithAttempt_def getUserProfile_def priorHistory_def Let_def split: option.splits)

lemma profileWithAttempt_typicalLocations:
  "typicalLocations (profileWithAttempt d a) =
     (case userProfiles d (userId a) of None \<Rightarrow> [] | Some p \<Rightarrow> typicalLocations p)"
  by (simp add: profileWithAttempt_def getUserProfile_def Let_def split: option.splits)

lemma list_ex_key:
  "list_ex (\<lambda>l. f l = a \<and> g l = b) xs \<longleftrightarrow> (a, b) \<in> set (map (\<lambda>l. (f l, g l)) xs)"
  by (induction xs) auto

lemma calculateUnusualTimeRisk_history:
  "loginHistory (snd (calculateUnusualTimeRisk env a p)) = loginHistory p"
  by (simp add: calculateUnusualTimeRisk_def Let_def)

lemma calculateRiskFactors_history:
  "loginHistory (snd (calculateRiskFactors env cfg a p)) = loginHistory p"
  by (simp add: calculateRiskFactors_def split_beta Let_def calculateUnusualTimeRisk_history
                calculateLocationChangeRisk_keeps)

lemma calculateRiskFactors_failedAttempts:
  "failedAttempts (snd (calculateRiskFactors env cfg a p)) = failedAttempts p"
  by (simp add: calculateRiskFactors_def calculateUnusualTimeRisk_def split_beta Let_def
                calculateLocationChangeRisk_keeps)

lemma profileWithAttempt_failedAttempts:
  "failedAttempts (profileWithAttempt d a) =
     priorFailedAttempts d (userId a) @ (if success a then [] else [a])"
  by (simp add: profileWithAttempt_def getUserProfile_def priorFailedAttempts_def Let_def
           split: option.splits)

text \<open>
  The configuration never changes, and the history and the failed attempts of a user
  only grow: each analysed attempt is appended to the history of its user, and to the
  failed attempts when it failed.
\<close>

lemma analyzeLogin_config: "config (snd (analyzeLogin env d a)) = config d"
  by (simp add: analyzeLogin_def getUserProfile_config split_beta Let_def)

lemma analyzeLogin_priorHistory:
  "priorHistory (snd (analyzeLogin env d a)) u =
     priorHistory d u @ (if userId a = u then [a] else [])"
  by (simp add: priorHistory_def analyzeLogin_userProfiles calculateRiskFactors_history
                profileWithAttempt_history [unfolded priorHistory_def])

lemma analyzeLogin_priorFailedAttempts:
  "priorFailedAttempts (snd (analyzeLogin env d a)) u =
     priorFailedAttempts d u @ (if userId a = u \<and> \<not> success a then [a] else [])"
  by (simp add: priorFailedAttempts_def analyzeLogin_userProfiles
                calculateRiskFactors_failedAttempts
                profileWithAttempt_failedAttempts [unfolded priorFailedAttempts_def])

lemma analyzeMultiple_step:
  "snd (analyzeMultiple env d (a # rest)) =
     snd (analyzeMultiple env (snd (analyzeLogin env d a)) rest)"
  by (simp add: split_beta)

lemma analyzeMultiple_config: "config (snd (analyzeMultiple env d attempts)) = config d"
  by (induction attempts arbitrary: d)
     (simp_all add: analyzeMultiple_step analyzeLogin_config del: analyzeMultiple.simps(2))

lemma analyzeMultiple_priorHistory:
  "priorHistory (snd (analyzeMultiple env d attempts)) u =
     priorHistory d u @ filter (\<lambda>a. userId a = u) attempts"
  by (induction attempts arbitrary: d)
     (simp_all add: analyzeMultiple_step analyzeLogin_priorHistory del: analyzeMultiple.simps(2))

lemma analyzeMultiple_priorFailedAttempts:
  "priorFailedAttempts (snd (analyzeMultiple env d attempts)) u =
     priorFailedAttempts d u @ filter (\<lambda>a. userId a = u \<and> \<not> success a) attempts"
  by (induction attempts arbitrary: d)
     (simp_all add: analyzeMultiple_step analyzeLogin_priorFailedAttempts
               del: analyzeMultiple.simps(2))

lemma newDetector_prior:
  "priorHistory (newDetector cfg) u = []"
  "priorFailedAttempts (newDetector cfg) u = []"
  by (simp_all add: priorHistory_def priorFailedAttempts_def newDetector_def)

lemma calculateLocationChangeRisk_nonempty:
  assumes "loginHistory p \<noteq> []" and "getLocationFromIP env (ipAddress a) = Some loc"
  shows "calculateLocationChangeRisk env a p =
           (if (country loc, city loc) \<in> set (map (\<lambda>l. (country l, city l)) (typicalLocations p))
            then (0, p)
            else (40, p\<lparr>typicalLocations := typicalLocations p @ [loc]\<rparr>))"
proof -
  have "list_ex (\<lambda>l. country l = country loc \<and> city l = city loc) (typicalLocations p)
          \<longleftrightarrow> (country loc, city loc) \<in> set (map (\<lambda>l. (country l, city l)) (typicalLocations p))"
    by (rule list_ex_key)
  with assms show ?thesis
    by (simp add: calculateLocationChangeRisk_def Let_def)
qed

lemma calculateLocationChangeRisk_dedup:
  assumes "loginHistory p \<noteq> []" and "dedupLocations p"
  shows "dedupLocations (snd (calculateLocationChangeRisk env a p))"
proof (cases "getLocationFromIP env (ipAddress a)")
  case None
  then show ?thesis using assms by (simp add: calculateLocationChangeRisk_def)
next
  case (Some loc)
  show ?thesis
    using assms by (auto simp: calculateLocationChangeRisk_nonempty [OF assms(1) Some] dedupLocations_def)
qed

text \<open>
  C9. If a user's profile has no two typical locations with the same country and city
  before an attempt is analysed, it has none afterwards; this holds for the profile of
  the attempt's user (also when it is created by the call) and for every other profile.
\<close>

theorem analyzeLogin_preserves_dedup:
  assumes "case userProfiles d u of None \<Rightarrow> True | Some p \<Rightarrow> dedupLocations p"
  shows "case userProfiles (snd (analyzeLogin env d a)) u of
           None \<Rightarrow> True | Some p' \<Rightarrow> dedupLocations p'"
proof (cases "u = userId a")
  case False
  then show ?thesis using assms by (simp add: analyzeLogin_userProfiles)
next
  case True
  have ne: "loginHistory (profileWithAttempt d a) \<noteq> []"
    by (simp add: profileWithAttempt_history)
  have "dedupLocations (profileWithAttempt d a)"
    using assms True
    by (auto simp: dedupLocations_def profileWithAttempt_typicalLocations split: option.splits)
  from calculateLocationChangeRisk_dedup [OF ne this]
  have "dedupLocations (snd (calculateRiskFactors env (config d) a (profileWithAttempt d a)))"
    by (simp add: dedupLocations_def calculateRiskFactors_typicalLocations)
  then show ?thesis using True by (simp add: analyzeLogin_userProfiles)
qed

lemma mkAttempt_sel [simp]:
  "userId (mkAttempt u t ip ok) = u"
  "timestamp (mkAttempt u t ip ok) = t"
  "ipAddress (mkAttempt u t ip ok) = ip"
  "success (mkAttempt u t ip ok) = ok"
  by (simp_all add: mkAttempt_def)

lemma sample_locations:
  "getLocationFromIP sampleEnv ''198.51.100.1'' = Some alpha"
  "getLocationFromIP sampleEnv ''198.51.100.2'' = Some beta"
  "getLocationFromIP sampleEnv ''198.51.100.3'' = Some gamma"
  by (simp_all add: getLocationFromIP_def sampleEnv_def sampleLookup_def alpha_def beta_def
                    gamma_def)

lemma sampleDetector_reachable:
  "snd (analyzeLogin sampleEnv (newDetector None) (mkAttempt ''alice'' 0 ''198.51.100.1'' True))
     = sampleDetector"
  by (simp add: analyzeLogin_def calculateRiskFactors_def split_beta getUserProfile_def
                calculateLocationChangeRisk_def calculateUnusualTimeRisk_def sample_locations
                newDetector_def sampleDetector_def aliceProfile_def mkProfile_def Let_def)

theorem analyzeLogin_preserves_dedup_witness:
  "dedupLocations aliceProfile
   \<and> (\<exists>p'. userProfiles (snd (analyzeLogin sampleEnv sampleDetector
                (mkAttempt ''alice'' 7200000 ''198.51.100.2'' True))) ''alice'' = Some p'
          \<and> typicalLocations p' = [alpha, beta] \<and> dedupLocations p')"
proof -
  let ?a = "mkAttempt ''alice'' 7200000 ''198.51.100.2'' True"
  have pre: "case userProfiles sampleDetector ''alice'' of None \<Rightarrow> True | Some p \<Rightarrow> dedupLocations p"
    by (simp add: sampleDetector_def aliceProfile_def mkProfile_def dedupLocations_def)
  have ne: "loginHistory (profileWithAttempt sampleDetector ?a) \<noteq> []"
    by (simp add: profileWithAttempt_history)
  have tl: "typicalLocations (profileWithAttempt sampleDetector ?a) = [alpha]"
    by (simp add: profileWithAttempt_typicalLocations sampleDetector_def aliceProfile_def mkProfile_def)
  have loc: "getLocationFromIP sampleEnv (ipAddress ?a) = Some beta"
    by (simp add: sample_locations)
  obtain p' where p': "userProfiles (snd (analyzeLogin sampleEnv sampleDetector ?a)) ''alice'' = Some p'"
    by (simp add: analyzeLogin_userProfiles)
  have "typicalLocations p' = [alpha, beta]"
    using p'
    by (auto simp add: analyzeLogin_userProfiles calculateRiskFactors_typicalLocations
                  calculateLocationChangeRisk_nonempty [OF ne loc] tl alpha_def beta_def)
  moreover have "dedupLocations p'"
    using analyzeLogin_preserves_dedup [OF pre, of sampleEnv ?a] p' by simp
  moreover have "dedupLocations aliceProfile"
    by (simp add: aliceProfile_def mkProfile_def dedupLocations_def)
  ultimately show ?thesis using p' by simp
qed

lemma analyzeLogin_locationChange:
  assumes "getLocationFromIP env (ipAddress a) = Some loc"
  shows "locationChange (factors (fst (analyzeLogin env d a))) =
           (if (country loc, city loc) \<in> set (map (\<lambda>l. (country l, city l))
                  (case userProfiles d (userId a) of None \<Rightarrow> [] | Some p \<Rightarrow> typicalLocations p))
            then 0 else 40)"
proof -
  have ne: "loginHistory (profileWithAttempt d a) \<noteq> []"
    by (simp add: profileWithAttempt_history)
  show ?thesis
    by (simp add: analyzeLogin_factors calculateRiskFactors_locationChange
                  calculateLocationChangeRisk_nonempty [OF ne assms]
                  profileWithAttempt_typicalLocations)
qed

lemma analyzeLogin_typicalLocations:
  assumes "getLocationFromIP env (ipAddress a) = Some loc"
  shows "\<exists>p'. userProfiles (snd (analyzeLogin env d a)) (userId a) = Some p' \<and>
           (country loc, city loc) \<in> set (map (\<lambda>l. (country l, city l)) (typicalLocations p'))"
proof -
  have ne: "loginHistory (profileWithAttempt d a) \<noteq> []"
    by (simp add: profileWithAttempt_history)
  show ?thesis
    by (simp add: analyzeLogin_userProfiles calculateRiskFactors_typicalLocations
                  calculateLocationChangeRisk_nonempty [OF ne assms])
qed

text \<open>
  C8. Analysing is not idempotent: for an attempt of a user without a profile whose
  address resolves, a second call with the same attempt returns a different assessment
  than the first, because it finds what the first call stored.
\<close>

theorem analyzeLogin_not_idempotent:
  assumes "userProfiles d (userId a) = None"
      and "getLocationFromIP env (ipAddress a) = Some loc"
  shows "fst (analyzeLogin env d a) \<noteq> fst (analyzeLogin env (snd (analyzeLogin env d a)) a)"
proof -
  have first: "locationChange (factors (fst (analyzeLogin env d a))) = 40"
    using assms(1) by (simp add: analyzeLogin_locationChange [OF assms(2)])
  obtain p' where "userProfiles (snd (analyzeLogin env d a)) (userId a) = Some p'"
    and "(country loc, city loc) \<in> set (map (\<lambda>l. (country l, city l)) (typicalLocations p'))"
    using analyzeLogin_typicalLocations [OF assms(2)] by blast
  then have second:
    "locationChange (factors (fst (analyzeLogin env (snd (analyzeLogin env d a)) a))) = 0"
    by (simp add: analyzeLogin_locationChange [OF assms(2)])
  from first second show ?thesis by auto
qed

theorem analyzeLogin_not_idempotent_witness:
  "fst (analyzeLogin sampleEnv (newDetector None) (mkAttempt ''alice'' 0 ''198.51.100.1'' True))
   \<noteq> fst (analyzeLogin sampleEnv
            (snd (analyzeLogin sampleEnv (newDetector None)
                    (mkAttempt ''alice'' 0 ''198.51.100.1'' True)))
            (mkAttempt ''alice'' 0 ''198.51.100.1'' True))"
proof -
  let ?a = "mkAttempt ''alice'' 0 ''198.51.100.1'' True"
  have fresh: "userProfiles (newDetector None) (userId ?a) = None"
    by (simp add: newDetector_def)
  have loc: "getLocationFromIP sampleEnv (ipAddress ?a) = Some alpha"
    by (simp add: sample_locations)
  from analyzeLogin_not_idempotent [OF fresh loc] show ?thesis .
qed

text \<open>
  C1. The first attempt ever analysed for a user, from an address that resolves, should
  score 0 for the location change. The attempt is appended to the history before the
  calculators run, so the check for an empty history never succeeds: on a new detector
  the first login of alice from Alpha scores 40. The location is recorded as typical.
\<close>

theorem first_login_scores_40:
  "locationChange (factors (fst (analyzeLogin sampleEnv (newDetector None)
      (mkAttempt ''alice'' 0 ''198.51.100.1'' True)))) = 40
   \<and> (\<exists>p. userProfiles (snd (analyzeLogin sampleEnv (newDetector None)
               (mkAttempt ''alice'' 0 ''198.51.100.1'' True))) ''alice'' = Some p
          \<and> typicalLocations p = [alpha])"
proof -
  let ?a = "mkAttempt ''alice'' 0 ''198.51.100.1'' True"
  have loc: "getLocationFromIP sampleEnv (ipAddress ?a) = Some alpha"
    by (simp add: sample_locations)
  have ne: "loginHistory (profileWithAttempt (newDetector None) ?a) \<noteq> []"
    by (simp add: profileWithAttempt_history)
  have fresh: "userProfiles (newDetector None) ''alice'' = None"
    by (simp add: newDetector_def)
  have "locationChange (factors (fst (analyzeLogin sampleEnv (newDetector None) ?a))) = 40"
    by (simp add: analyzeLogin_locationChange [OF loc] fresh)
  moreover have "\<exists>p. userProfiles (snd (analyzeLogin sampleEnv (newDetector None) ?a)) ''alice''
                       = Some p \<and> typicalLocations p = [alpha]"
    by (simp add: analyzeLogin_userProfiles calculateRiskFactors_typicalLocations
                  calculateLocationChangeRisk_nonempty [OF ne loc]
                  profileWithAttempt_typicalLocations fresh)
  ultimately show ?thesis by simp
qed

section \<open>Ranges of the factors and of the score\<close>

lemma calculateLocationChangeRisk_range:
  "fst (calculateLocationChangeRisk env a p) = 0 \<or> fst (calculateLocationChangeRisk env a p) = 40"
  by (simp add: calculateLocationChangeRisk_def Let_def split: option.splits)

lemma calculateUnusualTimeRisk_range:
  "fst (calculateUnusualTimeRisk env a p) = 0 \<or> fst (calculateUnusualTimeRisk env a p) = 35"
  by (simp add: calculateUnusualTimeRisk_def Let_def)

lemma scaled_range:
  fixes x m b k :: real
  assumes "0 < m" and "m \<le> x" and "0 \<le> b" and "b \<le> 100" and "0 \<le> k"
  shows "0 \<le> Math_min 100 (b + (x / m - 1) * k)" and "Math_min 100 (b + (x / m - 1) * k) \<le> 100"
proof -
  have "1 \<le> x / m" using assms(1,2) by simp
  then have "0 \<le> (x / m - 1) * k" using assms(5) by simp
  then show "0 \<le> Math_min 100 (b + (x / m - 1) * k)"
    using assms(3) by (simp add: Math_min_def)
  show "Math_min 100 (b + (x / m - 1) * k) \<le> 100"
    by (simp add: Math_min_def)
qed

lemma calculateImpossibleTravelRisk_range:
  assumes "0 < maxTravelSpeed cfg"
  shows "0 \<le> calculateImpossibleTravelRisk env cfg a p \<and>
         calculateImpossibleTravelRisk env cfg a p \<le> 100"
  using scaled_range [OF assms, where b = 60 and k = 40]
  by (auto simp: calculateImpossibleTravelRisk_def Let_def split: option.splits jsnum.splits)

lemma calculateBruteForceRisk_range:
  assumes "0 < bruteForceThreshold cfg"
  shows "0 \<le> calculateBruteForceRisk cfg a p \<and> calculateBruteForceRisk cfg a p \<le> 100"
  using scaled_range [OF assms, where b = 70 and k = 30]
  by (auto simp: calculateBruteForceRisk_def Let_def)

lemma calculateRiskFactors_fields:
  "impossibleTravel (fst (calculateRiskFactors env cfg a p)) =
     calculateImpossibleTravelRisk env cfg a (snd (calculateLocationChangeRisk env a p))"
  "bruteForce (fst (calculateRiskFactors env cfg a p)) =
     calculateBruteForceRisk cfg a (snd (calculateLocationChangeRisk env a p))"
  "unusualTime (fst (calculateRiskFactors env cfg a p)) =
     fst (calculateUnusualTimeRisk env a (snd (calculateLocationChangeRisk env a p)))"
  by (simp_all add: calculateRiskFactors_def split_beta Let_def)

lemma calculateOverallRisk_range:
  assumes "0 \<le> locationChange fs" "locationChange fs \<le> 100"
      and "0 \<le> impossibleTravel fs" "impossibleTravel fs \<le> 100"
      and "0 \<le> bruteForce fs" "bruteForce fs \<le> 100"
      and "0 \<le> unusualTime fs" "unusualTime fs \<le> 100"
  shows "0 \<le> calculateOverallRisk fs" and "calculateOverallRisk fs \<le> 100"
proof -
  define d where "d = (1::real) / 2 ^ 30"
  have d: "0 \<le> d" "d \<le> 1 / 4" by (simp_all add: d_def)
  have err: "\<bar>doubleScore fs - weightedSum fs\<bar> \<le> d"
    unfolding d_def using assms by (intro doubleScore_error) auto
  have ws: "0 \<le> weightedSum fs" "weightedSum fs \<le> 100"
    using assms by (simp_all add: weightedSum_def)
  have "0 \<le> doubleScore fs + 1 / 2"
    using err ws(1) d unfolding abs_le_iff by linarith
  then show "0 \<le> calculateOverallRisk fs"
    by (simp add: calculateOverallRisk_doubleScore)
  have "doubleScore fs + 1 / 2 < 101"
    using err ws(2) d unfolding abs_le_iff by linarith
  then have "\<lfloor>doubleScore fs + 1 / 2\<rfloor> < 101" by (simp add: floor_less_iff)
  then show "calculateOverallRisk fs \<le> 100"
    by (simp add: calculateOverallRisk_doubleScore)
qed

text \<open>
  C6, as the code has it. For a configuration with a positive maximal travel speed and a positive
  brute-force threshold, every analysed attempt gets an overall risk that is an integer
  between 0 and 100, and each of the four factors lies between 0 and 100.
\<close>

theorem overallRisk_in_range:
  assumes "0 < maxTravelSpeed (config d)" and "0 < bruteForceThreshold (config d)"
  shows "0 \<le> overallRisk (fst (analyzeLogin env d a)) \<and>
         overallRisk (fst (analyzeLogin env d a)) \<le> 100 \<and>
         0 \<le> locationChange (factors (fst (analyzeLogin env d a))) \<and>
         locationChange (factors (fst (analyzeLogin env d a))) \<le> 100 \<and>
         0 \<le> impossibleTravel (factors (fst (analyzeLogin env d a))) \<and>
         impossibleTravel (factors (fst (analyzeLogin env d a))) \<le> 100 \<and>
         0 \<le> bruteForce (factors (fst (analyzeLogin env d a))) \<and>
         bruteForce (factors (fst (analyzeLogin env d a))) \<le> 100 \<and>
         0 \<le> unusualTime (factors (fst (analyzeLogin env d a))) \<and>
         unusualTime (factors (fst (analyzeLogin env d a))) \<le> 100"
proof -
  let ?fs = "factors (fst (analyzeLogin env d a))"
  let ?p = "profileWithAttempt d a"
  have lc: "0 \<le> locationChange ?fs" "locationChange ?fs \<le> 100"
    using calculateLocationChangeRisk_range [of env a ?p]
    by (auto simp: analyzeLogin_factors calculateRiskFactors_locationChange)
  have it: "0 \<le> impossibleTravel ?fs" "impossibleTravel ?fs \<le> 100"
    using calculateImpossibleTravelRisk_range [OF assms(1)]
    by (simp_all add: analyzeLogin_factors calculateRiskFactors_fields)
  have bf: "0 \<le> bruteForce ?fs" "bruteForce ?fs \<le> 100"
    using calculateBruteForceRisk_range [OF assms(2)]
    by (simp_all add: analyzeLogin_factors calculateRiskFactors_fields)
  have ut: "0 \<le> unusualTime ?fs" "unusualTime ?fs \<le> 100"
    using calculateUnusualTimeRisk_range [of env a "snd (calculateLocationChangeRisk env a ?p)"]
    by (auto simp: analyzeLogin_factors calculateRiskFactors_fields)
  from calculateOverallRisk_range [OF lc it bf ut] lc it bf ut show ?thesis
    by (simp add: analyzeLogin_overallRisk)
qed


theorem overallRisk_in_range_witness:
  "0 < maxTravelSpeed (config (newDetector None)) \<and>
   0 < bruteForceThreshold (config (newDetector None)) \<and>
   0 \<le> overallRisk (fst (analyzeLogin sampleEnv (newDetector None)
                            (mkAttempt ''alice'' 0 ''198.51.100.1'' True))) \<and>
   overallRisk (fst (analyzeLogin sampleEnv (newDetector None)
                       (mkAttempt ''alice'' 0 ''198.51.100.1'' True))) \<le> 100"
proof -
  have pos: "0 < maxTravelSpeed (config (newDetector None))"
            "0 < bruteForceThreshold (config (newDetector None))"
    by (simp_all add: newDetector_def defaultConfig_def)
  from overallRisk_in_range [OF pos] pos show ?thesis by blast
qed

section \<open>Unusual login times\<close>

lemma hour_lt_24: "getHourOfDay env t < 24"
  by (simp add: getHourOfDay_def getHours_def nat_less_iff)

lemma hourCount_pos_lt: "0 < hourCount env ls h \<Longrightarrow> h < 24"
proof -
  assume "0 < hourCount env ls h"
  then obtain l where "l \<in> set ls" "getHourOfDay env (timestamp l) = h"
    by (auto simp: hourCount_def filter_empty_conv)
  then show ?thesis using hour_lt_24 [of env "timestamp l"] by simp
qed

lemma hourCount_Cons:
  "hourCount env (l # ls) h =
     (if getHourOfDay env (timestamp l) = h then Suc (hourCount env ls h) else hourCount env ls h)"
  by (simp add: hourCount_def)

lemma countHours_eq:
  "countHours env ls m h =
     (if hourCount env ls h = 0 then m h
      else Some ((case m h of None \<Rightarrow> 0 | Some n \<Rightarrow> n) + hourCount env ls h))"
proof (induction ls arbitrary: m)
  case Nil
  then show ?case by (simp add: hourCount_def)
next
  case (Cons l ls)
  show ?case
    by (simp add: Cons.IH hourCount_Cons Let_def split: option.splits)
qed

lemma countHours_empty:
  "countHours env ls Map.empty h =
     (if hourCount env ls h = 0 then None else Some (hourCount env ls h))"
  by (simp add: countHours_eq)

lemma calculateTypicalLoginHours_set:
  assumes "ls \<noteq> []"
  shows "set (calculateTypicalLoginHours env ls) = typicalHours_spec env ls"
proof -
  let ?N = "real (length ls)"
  have Npos: "0 < ?N" using assms by simp
  let ?sig = "{h. real (hourCount env ls h) \<ge> 0.1 * ?N}"
  have sig: "set (filter (\<lambda>hour. case countHours env ls Map.empty hour of None \<Rightarrow> False
                                  | Some n \<Rightarrow> ?N * (1 / 10) \<le> real n) [0..<24]) = ?sig"
  proof -
    have "0 < hourCount env ls h" if "real (hourCount env ls h) \<ge> 0.1 * ?N" for h
      using Npos that by (cases "hourCount env ls h = 0") auto
    then show ?thesis
      using hourCount_pos_lt [of env ls]
      by (auto simp: countHours_empty)
  qed
  have act: "set (filter (\<lambda>hour. countHours env ls Map.empty hour \<noteq> None) [0..<24]) =
             {h. hourCount env ls h > 0}"
    using hourCount_pos_lt [of env ls] by (auto simp: countHours_empty)
  show ?thesis
    unfolding calculateTypicalLoginHours_def typicalHours_spec_def Let_def
    using sig act by (simp add: filter_empty_conv set_empty [symmetric] del: set_empty)
qed


lemma typicalHours_spec_nonempty:
  assumes "ls \<noteq> []"
  shows "typicalHours_spec env ls \<noteq> {}"
proof -
  obtain l rest where "ls = l # rest" using assms by (cases ls) auto
  then have "0 < hourCount env ls (getHourOfDay env (timestamp l))"
    by (simp add: hourCount_Cons)
  then have "{h. hourCount env ls h > 0} \<noteq> {}" by blast
  then show ?thesis by (simp add: typicalHours_spec_def Let_def)
qed

lemma isUnusualLoginTime_iff:
  assumes "ls \<noteq> []"
  shows "isUnusualLoginTime env t (calculateTypicalLoginHours env ls) \<longleftrightarrow>
         getHourOfDay env t \<notin> typicalHours_spec env ls"
proof -
  have "calculateTypicalLoginHours env ls \<noteq> []"
    using typicalHours_spec_nonempty [OF assms, of env]
          calculateTypicalLoginHours_set [OF assms, of env] by auto
  then show ?thesis
    by (simp add: isUnusualLoginTime_def Let_def calculateTypicalLoginHours_set [OF assms])
qed

lemma calculateUnusualTimeRisk_value:
  "fst (calculateUnusualTimeRisk env a p) =
     (let successes = filter success (loginHistory p)
      in if length successes < 10 then 0
         else if getHourOfDay env (timestamp a) \<in> typicalHours_spec env successes then 0
         else 35)"
proof (cases "length (filter success (loginHistory p)) < 10")
  case True
  then show ?thesis by (simp add: calculateUnusualTimeRisk_def Let_def)
next
  case False
  then have ne: "filter success (loginHistory p) \<noteq> []" by auto
  show ?thesis
    using False
    by (simp add: calculateUnusualTimeRisk_def Let_def isUnusualLoginTime_iff [OF ne])
qed

lemma analyzeLogin_unusualTime:
  "unusualTime (factors (fst (analyzeLogin env d a))) =
     (let successes = filter success (priorHistory d (userId a) @ [a])
      in if length successes < 10 then 0
         else if getHourOfDay env (timestamp a) \<in> typicalHours_spec env successes then 0
         else 35)"
  by (simp add: analyzeLogin_factors calculateRiskFactors_fields calculateUnusualTimeRisk_value
                calculateLocationChangeRisk_keeps profileWithAttempt_history del: filter_append)

lemma hourCount_all_same:
  assumes "\<forall>l\<in>set ls. getHourOfDay env (timestamp l) = k"
  shows "hourCount env ls h = (if h = k then length ls else 0)"
  using assms by (induction ls) (auto simp: hourCount_Cons hourCount_def)

lemma hourCount_Nil: "hourCount env [] h = 0"
  by (simp add: hourCount_def)

lemma hourCount_append:
  "hourCount env (xs @ ys) h = hourCount env xs h + hourCount env ys h"
  by (simp add: hourCount_def)

lemma ten_at_ten_then_three:
  assumes len: "length (filter success prior) = 10"
      and all10: "\<forall>l\<in>set (filter success prior). getHourOfDay env (timestamp l) = 10"
      and three: "getHourOfDay env (timestamp a) = 3"
  shows "getHourOfDay env (timestamp a) \<notin> typicalHours_spec env (filter success (prior @ [a]))"
proof -
  let ?S = "filter success prior"
  let ?T = "filter success (prior @ [a])"
  have T: "?T = ?S @ (if success a then [a] else [])" by simp
  have c10: "hourCount env ?T 10 = 10"
    using three by (simp add: hourCount_append hourCount_all_same [OF all10] len hourCount_Cons hourCount_Nil)
  have c3: "hourCount env ?T 3 = (if success a then 1 else 0)"
    using three by (simp add: hourCount_append hourCount_all_same [OF all10] hourCount_Cons hourCount_Nil)
  have lenT: "length ?T = (if success a then 11 else 10)"
    using len by simp
  define sig where "sig = {h. real (hourCount env ?T h) \<ge> 0.1 * real (length ?T)}"
  have "(10::nat) \<in> sig"
    unfolding sig_def using c10 lenT by (simp del: filter_append)
  then have ne: "sig \<noteq> {}" by blast
  have notin: "(3::nat) \<notin> sig"
    unfolding sig_def using c3 lenT by (simp del: filter_append)
  have "typicalHours_spec env ?T = sig"
    using ne unfolding typicalHours_spec_def Let_def sig_def by (simp only: if_False)
  with notin three show ?thesis by simp
qed


lemma hourCount_member:
  "l \<in> set ls \<Longrightarrow> 0 < hourCount env ls (getHourOfDay env (timestamp l))"
  by (auto simp: hourCount_def filter_empty_conv)

lemma tenth_success_is_typical:
  assumes "length (filter success prior) < 10"
      and "\<not> length (filter success (prior @ [a])) < 10"
  shows "getHourOfDay env (timestamp a) \<in> typicalHours_spec env (filter success (prior @ [a]))"
proof -
  let ?T = "filter success (prior @ [a])"
  have ok: "success a" using assms by (cases "success a") auto
  then have len: "length ?T = 10" using assms by simp
  have "a \<in> set ?T" using ok by simp
  then have "0 < hourCount env ?T (getHourOfDay env (timestamp a))"
    by (rule hourCount_member)
  then have "real (hourCount env ?T (getHourOfDay env (timestamp a))) \<ge> 0.1 * real (length ?T)"
    unfolding len by simp
  then show ?thesis
    unfolding typicalHours_spec_def Let_def by auto
qed

lemma analyzeLogin_unusualTime_cold:
  assumes "length (filter success (priorHistory d (userId a))) < 10"
  shows "unusualTime (factors (fst (analyzeLogin env d a))) = 0"
proof (cases "length (filter success (priorHistory d (userId a) @ [a])) < 10")
  case True
  then show ?thesis by (simp add: analyzeLogin_unusualTime Let_def del: filter_append)
next
  case False
  from tenth_success_is_typical [OF assms False] False show ?thesis
    by (simp add: analyzeLogin_unusualTime Let_def del: filter_append)
qed

text \<open>
  C4. The unusual-time factor is 0 when the history, with the current attempt, holds
  fewer than 10 successful logins; otherwise it is 35 exactly when the hour of the
  attempt is not typical, where the typical hours are those with at least 10% of the
  successful logins, or every hour with a successful login if there is none. It is
  also 0 when the history before the attempt holds fewer than 10 successful logins.
  After 10 successful logins at hour 10, a login at hour 3 gets 35.
\<close>

theorem unusualTime_characterised:
  "unusualTime (factors (fst (analyzeLogin env d a))) =
     (let successes = filter success (priorHistory d (userId a) @ [a])
      in if length successes < 10 then 0
         else if getHourOfDay env (timestamp a) \<in> typicalHours_spec env successes then 0
         else 35)
   \<and> (length (filter success (priorHistory d (userId a))) < 10
      \<longrightarrow> unusualTime (factors (fst (analyzeLogin env d a))) = 0)
   \<and> (length (filter success (priorHistory d (userId a))) = 10 \<and>
      (\<forall>l\<in>set (filter success (priorHistory d (userId a))). getHourOfDay env (timestamp l) = 10) \<and>
      getHourOfDay env (timestamp a) = 3
      \<longrightarrow> unusualTime (factors (fst (analyzeLogin env d a))) = 35)"
proof (intro conjI impI)
  show "unusualTime (factors (fst (analyzeLogin env d a))) =
     (let successes = filter success (priorHistory d (userId a) @ [a])
      in if length successes < 10 then 0
         else if getHourOfDay env (timestamp a) \<in> typicalHours_spec env successes then 0
         else 35)"
    by (rule analyzeLogin_unusualTime)
next
  assume "length (filter success (priorHistory d (userId a))) < 10"
  then show "unusualTime (factors (fst (analyzeLogin env d a))) = 0"
    by (rule analyzeLogin_unusualTime_cold)
next
  let ?prior = "priorHistory d (userId a)"
  assume h: "length (filter success ?prior) = 10 \<and>
      (\<forall>l\<in>set (filter success ?prior). getHourOfDay env (timestamp l) = 10) \<and>
      getHourOfDay env (timestamp a) = 3"
  then have notin: "getHourOfDay env (timestamp a) \<notin>
                      typicalHours_spec env (filter success (?prior @ [a]))"
    by (intro ten_at_ten_then_three) auto
  have "\<not> length (filter success (?prior @ [a])) < 10"
    using h by simp
  with notin show "unusualTime (factors (fst (analyzeLogin env d a))) = 35"
    by (simp add: analyzeLogin_unusualTime Let_def del: filter_append)
qed

theorem unusualTime_characterised_witness:
  "length (filter success (priorHistory danaDetector ''dana'')) = 10 \<and>
   getHourOfDay sampleEnv (timestamp (mkAttempt ''dana'' 874800000 ''198.51.100.1'' True)) = 3 \<and>
   unusualTime (factors (fst (analyzeLogin sampleEnv danaDetector
      (mkAttempt ''dana'' 874800000 ''198.51.100.1'' True)))) = 35"
proof -
  let ?a = "mkAttempt ''dana'' 874800000 ''198.51.100.1'' True"
  have prior: "priorHistory danaDetector ''dana'' = danaLogins"
    unfolding danaDetector_def analyzeMultiple_priorHistory newDetector_prior
    by (simp add: danaLogins_def)
  have len: "length (filter success (priorHistory danaDetector ''dana'')) = 10"
    by (simp add: prior danaLogins_def)
  have all10: "\<forall>l\<in>set (filter success (priorHistory danaDetector ''dana'')).
                 getHourOfDay sampleEnv (timestamp l) = 10"
    by (simp add: prior danaLogins_def getHourOfDay_def getHours_def sampleEnv_def)
  have three: "getHourOfDay sampleEnv (timestamp ?a) = 3"
    by (simp add: getHourOfDay_def getHours_def sampleEnv_def)
  have hyp: "length (filter success (priorHistory danaDetector (userId ?a))) = 10 \<and>
      (\<forall>l\<in>set (filter success (priorHistory danaDetector (userId ?a))).
          getHourOfDay sampleEnv (timestamp l) = 10) \<and>
      getHourOfDay sampleEnv (timestamp ?a) = 3"
    using len all10 three by simp
  from unusualTime_characterised [of sampleEnv danaDetector ?a, THEN conjunct2, THEN conjunct2,
                                  THEN mp, OF hyp]
  have "unusualTime (factors (fst (analyzeLogin sampleEnv danaDetector ?a))) = 35" .
  with len three show ?thesis by simp
qed

section \<open>Whole hours, whole minutes and distances\<close>

lemma roundingTrunc_abs:
  assumes "0 < k"
  shows "\<bar>roundingTrunc (real_of_int d / real_of_int k)\<bar> = \<bar>d\<bar> div k"
proof (cases "d < 0")
  case True
  then have neg: "real_of_int d / real_of_int k < 0"
    using assms by (simp add: divide_neg_pos)
  have "\<lceil>real_of_int d / real_of_int k\<rceil> = - ((- d) div k)"
    by (rule ceiling_divide_eq_div)
  moreover have "0 \<le> (- d) div k"
    using True assms by (simp add: pos_imp_zdiv_nonneg_iff)
  ultimately show ?thesis
    using True neg by (simp add: roundingTrunc_def)
next
  case False
  then have nonneg: "\<not> real_of_int d / real_of_int k < 0"
    using assms by (simp add: not_less)
  have "\<lfloor>real_of_int d / real_of_int k\<rfloor> = d div k"
    by (rule floor_divide_of_int_eq)
  moreover have "0 \<le> d div k"
    using False assms by (simp add: pos_imp_zdiv_nonneg_iff)
  ultimately show ?thesis
    using False nonneg by (simp add: roundingTrunc_def)
qed

lemma getTimeDifferenceInHours_whole:
  "getTimeDifferenceInHours t1 t2 = wholeHours t1 t2"
  using roundingTrunc_abs [of 3600000 "t1 - t2"]
  by (simp add: getTimeDifferenceInHours_def differenceInHours_def wholeHours_def)

lemma getTimeDifferenceInMinutes_whole:
  "getTimeDifferenceInMinutes t1 t2 = wholeMinutes t1 t2"
  using roundingTrunc_abs [of 60000 "t1 - t2"]
  by (simp add: getTimeDifferenceInMinutes_def differenceInMinutes_def wholeMinutes_def)

lemma Math_atan2_sin_cos:
  assumes "0 \<le> x" and "x < pi / 2"
  shows "Math_atan2 (sqrt (sin x * sin x)) (sqrt (1 - sin x * sin x)) = x"
proof -
  have s: "0 \<le> sin x" using assms by (intro sin_ge_zero) auto
  have c: "0 < cos x" using assms by (intro cos_gt_zero_pi) auto
  have "1 - sin x * sin x = cos x * cos x"
    using sin_cos_squared_add3 [of x] by linarith
  then have "sqrt (1 - sin x * sin x) = cos x" using c by simp
  moreover have "sqrt (sin x * sin x) = sin x" using s by simp
  moreover have "arctan (sin x / cos x) = x"
    using arctan_tan [of x] assms by (simp add: tan_def)
  ultimately show ?thesis using c by (simp add: Math_atan2_def)
qed

lemma calculateDistance_equator:
  assumes "0 \<le> l" and "l < 180"
  shows "calculateDistance 0 0 0 l = 6371 * (l * pi / 180)"
proof -
  let ?x = "l * pi / 360"
  have x: "0 \<le> ?x" "?x < pi / 2" using assms by simp_all
  have "calculateDistance 0 0 0 l =
          6371 * (2 * Math_atan2 (sqrt (sin ?x * sin ?x)) (sqrt (1 - sin ?x * sin ?x)))"
    by (simp add: calculateDistance_def toRadians_def Let_def)
  also have "\<dots> = 6371 * (2 * ?x)" by (simp only: Math_atan2_sin_cos [OF x])
  finally show ?thesis by simp
qed


section \<open>Impossible travel\<close>

lemma calculateImpossibleTravelRisk_last:
  "lastSuccessfulLogin p = lastSuccessfulLogin q \<Longrightarrow>
   calculateImpossibleTravelRisk env cfg a p = calculateImpossibleTravelRisk env cfg a q"
  by (simp add: calculateImpossibleTravelRisk_def)

lemma analyzeLogin_impossibleTravel:
  "impossibleTravel (factors (fst (analyzeLogin env d a))) =
     calculateImpossibleTravelRisk env (config d) a (profileWithAttempt d a)"
  by (simp add: analyzeLogin_factors calculateRiskFactors_fields
                calculateImpossibleTravelRisk_last [OF calculateLocationChangeRisk_keeps(3)])

lemma profileWithAttempt_lastSuccessfulLogin:
  "lastSuccessfulLogin (profileWithAttempt d a) =
     (if success a then Some a
      else (case userProfiles d (userId a) of None \<Rightarrow> None | Some p \<Rightarrow> lastSuccessfulLogin p))"
  by (simp add: profileWithAttempt_def getUserProfile_def Let_def split: option.splits)

text \<open>
  Inside \<^verbatim>\<open>analyzeLogin\<close> a successful attempt has replaced
  \<^verbatim>\<open>lastSuccessfulLogin\<close> before the calculators run, so it is compared with
  itself and its impossible-travel factor is 0.
\<close>

lemma analyzeLogin_impossibleTravel_success:
  "success a \<Longrightarrow> impossibleTravel (factors (fst (analyzeLogin env d a))) = 0"
  by (simp add: analyzeLogin_impossibleTravel calculateImpossibleTravelRisk_def
                profileWithAttempt_lastSuccessfulLogin split: option.splits)

text \<open>
  C2, as the code has it. When the profile has a last successful login, both addresses
  resolve and the two locations differ in country or city, and the maximal travel
  speed is positive, the elapsed time is the absolute difference of the two timestamps
  in whole hours (minutes beyond the last full hour are dropped). When it is 0 the
  factor is 100; otherwise the speed is the Haversine distance divided by the whole
  hours, and the factor is min(100, 60 + (speed/maxTravelSpeed - 1) * 40) when the
  speed exceeds maxTravelSpeed, 30 when it exceeds 0.7 * maxTravelSpeed, and 0 otherwise.
\<close>

theorem impossibleTravel_whole_hours:
  assumes "lastSuccessfulLogin p = Some prev"
      and "getLocationFromIP env (ipAddress a) = Some cur"
      and "getLocationFromIP env (ipAddress prev) = Some pl"
      and "(country cur, city cur) \<noteq> (country pl, city pl)"
      and "0 < maxTravelSpeed cfg"
  shows "calculateImpossibleTravelRisk env cfg a p =
     (let hours = wholeHours (timestamp prev) (timestamp a);
          speed = calculateDistance (latitude pl) (longitude pl) (latitude cur) (longitude cur)
                  / real_of_int hours
      in if hours = 0 then 100
         else if speed > maxTravelSpeed cfg
              then min 100 (60 + (speed / maxTravelSpeed cfg - 1) * 40)
         else if speed > 0.7 * maxTravelSpeed cfg then 30
         else 0)"
proof -
  have differ: "\<not> (city cur = city pl \<and> country cur = country pl)"
    using assms(4) by auto
  have m: "Math_min 100 y = min 100 y" for y
    by (simp add: Math_min_def min_def)
  let ?h = "wholeHours (timestamp prev) (timestamp a)"
  let ?dist = "calculateDistance (latitude pl) (longitude pl) (latitude cur) (longitude cur)"
  have code: "calculateImpossibleTravelRisk env cfg a p =
                (case calculateTravelSpeed pl cur ?h of
                   Infinity \<Rightarrow> 100
                 | Fin speed \<Rightarrow>
                     if speed > maxTravelSpeed cfg
                     then Math_min 100 (60 + (speed / maxTravelSpeed cfg - 1) * 40)
                     else if speed > maxTravelSpeed cfg * (7 / 10) then 30 else 0)"
    using differ
    by (auto simp: calculateImpossibleTravelRisk_def assms(1,2,3) Let_def
                   getTimeDifferenceInHours_whole split: jsnum.splits)
  show ?thesis
  proof (cases "?h = 0")
    case True
    then show ?thesis by (simp add: code calculateTravelSpeed_def Let_def)
  next
    case False
    have "maxTravelSpeed cfg * (7 / 10) = 0.7 * maxTravelSpeed cfg" by simp
    then show ?thesis
      using False by (simp add: code calculateTravelSpeed_def Let_def m)
  qed
qed

theorem impossibleTravel_whole_hours_witness:
  "calculateImpossibleTravelRisk sampleEnv defaultConfig
     (mkAttempt ''alice'' 5400000 ''198.51.100.2'' False) aliceProfile = 0
   \<and> calculateImpossibleTravelRisk sampleEnv defaultConfig
     (mkAttempt ''alice'' 12000000 ''198.51.100.3'' False) aliceProfile = 100"
proof -
  let ?prev = "mkAttempt ''alice'' 0 ''198.51.100.1'' True"
  let ?b = "mkAttempt ''alice'' 5400000 ''198.51.100.2'' False"
  let ?c = "mkAttempt ''alice'' 12000000 ''198.51.100.3'' False"
  have last: "lastSuccessfulLogin aliceProfile = Some ?prev"
    by (simp add: aliceProfile_def mkProfile_def)
  have pl: "getLocationFromIP sampleEnv (ipAddress ?prev) = Some alpha"
    by (simp add: sample_locations)
  have lb: "getLocationFromIP sampleEnv (ipAddress ?b) = Some beta"
    by (simp add: sample_locations)
  have lc: "getLocationFromIP sampleEnv (ipAddress ?c) = Some gamma"
    by (simp add: sample_locations)
  have db: "(country beta, city beta) \<noteq> (country alpha, city alpha)"
    by (simp add: alpha_def beta_def)
  have dc: "(country gamma, city gamma) \<noteq> (country alpha, city alpha)"
    by (simp add: alpha_def gamma_def)
  have pos: "0 < maxTravelSpeed defaultConfig"
    by (simp add: defaultConfig_def)
  have mx: "maxTravelSpeed defaultConfig = 900"
    by (simp add: defaultConfig_def)
  have distb: "calculateDistance (latitude alpha) (longitude alpha) (latitude beta) (longitude beta)
                 = 6371 * pi / 180"
    using calculateDistance_equator [of 1] by (simp add: alpha_def beta_def)
  have distc: "calculateDistance (latitude alpha) (longitude alpha) (latitude gamma) (longitude gamma)
                 = 6371 * pi / 2"
    using calculateDistance_equator [of 90] by (simp add: alpha_def gamma_def)
  have "calculateImpossibleTravelRisk sampleEnv defaultConfig ?b aliceProfile = 0"
    using pi_less_4
    by (simp add: impossibleTravel_whole_hours [OF last lb pl db pos] distb wholeHours_def
                  mx Let_def)
  moreover have "calculateImpossibleTravelRisk sampleEnv defaultConfig ?c aliceProfile = 100"
    using pi_ge_two
    by (simp add: impossibleTravel_whole_hours [OF last lc pl dc pos] distc wholeHours_def
                  mx Let_def)
  ultimately show ?thesis by simp
qed

text \<open>
  C2, as the specification words it, fails: alice logged in from Alpha at time 0; a failed
  attempt from Beta (111 km away) half an hour later needs 222 km/h and would score 0,
  but the code measures 0 whole hours, takes the speed as unbounded and scores 100.
\<close>

theorem impossibleTravel_fractional_hours_counterexample:
  "impossibleTravel (factors (fst (analyzeLogin sampleEnv sampleDetector
      (mkAttempt ''alice'' 1800000 ''198.51.100.2'' False)))) = 100
   \<and> impossibleTravel_spec defaultConfig alpha beta 0 1800000 = 0"
proof -
  let ?a = "mkAttempt ''alice'' 1800000 ''198.51.100.2'' False"
  have "lastSuccessfulLogin (profileWithAttempt sampleDetector ?a) =
          Some (mkAttempt ''alice'' 0 ''198.51.100.1'' True)"
    by (simp add: profileWithAttempt_lastSuccessfulLogin sampleDetector_def aliceProfile_def
                  mkProfile_def)
  then have "calculateImpossibleTravelRisk sampleEnv (config sampleDetector) ?a
               (profileWithAttempt sampleDetector ?a) = 100"
    by (simp add: calculateImpossibleTravelRisk_def sample_locations alpha_def beta_def Let_def
                  getTimeDifferenceInHours_whole wholeHours_def calculateTravelSpeed_def)
  then have code: "impossibleTravel (factors (fst (analyzeLogin sampleEnv sampleDetector ?a))) = 100"
    by (simp add: analyzeLogin_impossibleTravel)
  have dist: "calculateDistance (latitude alpha) (longitude alpha) (latitude beta) (longitude beta)
                 = 6371 * pi / 180"
    using calculateDistance_equator [of 1] by (simp add: alpha_def beta_def)
  have spec: "impossibleTravel_spec defaultConfig alpha beta 0 1800000 = 0"
    using pi_less_4
    by (simp add: impossibleTravel_spec_def dist defaultConfig_def Let_def)
  from code spec show ?thesis by simp
qed


section \<open>Brute force\<close>

lemma calculateBruteForceRisk_failed:
  "failedAttempts p = failedAttempts q \<Longrightarrow>
   calculateBruteForceRisk cfg a p = calculateBruteForceRisk cfg a q"
  by (simp add: calculateBruteForceRisk_def)

lemma analyzeLogin_bruteForce:
  "bruteForce (factors (fst (analyzeLogin env d a))) =
     calculateBruteForceRisk (config d) a (profileWithAttempt d a)"
  by (simp add: analyzeLogin_factors calculateRiskFactors_fields
                calculateBruteForceRisk_failed [OF calculateLocationChangeRisk_keeps(2)])

lemma getFailedAttemptsInWindow_whole:
  "getFailedAttemptsInWindow attempts now window =
     filter (\<lambda>f. \<not> success f \<and> real_of_int (wholeMinutes (timestamp f) now) \<le> window) attempts"
  unfolding getFailedAttemptsInWindow_def Let_def getTimeDifferenceInMinutes_whole
  by (rule filter_cong) auto

text \<open>
  C3, as the code has it. For a positive threshold, the brute-force factor counts the
  failed attempts of the user, the current one included when it failed, whose timestamp
  differs from the current one by a number of whole minutes (seconds beyond the last
  full minute are dropped) of at most bruteForceWindow; the factor is
  min(100, 70 + (count/bruteForceThreshold - 1) * 30) when the count reaches the
  threshold, 40 when it reaches 0.7 * bruteForceThreshold, and 0 otherwise.
\<close>

theorem bruteForce_whole_minutes:
  assumes "0 < bruteForceThreshold (config d)"
  shows "bruteForce (factors (fst (analyzeLogin env d a))) =
     (let failed = priorFailedAttempts d (userId a) @ (if success a then [] else [a]);
          count = real (length (filter
                    (\<lambda>f. \<not> success f \<and>
                         real_of_int (wholeMinutes (timestamp f) (timestamp a))
                           \<le> bruteForceWindow (config d))
                    failed))
      in if count \<ge> bruteForceThreshold (config d)
         then min 100 (70 + (count / bruteForceThreshold (config d) - 1) * 30)
         else if count \<ge> 0.7 * bruteForceThreshold (config d) then 40
         else 0)"
proof -
  have m: "Math_min 100 y = min 100 y" for y
    by (simp add: Math_min_def min_def)
  have "bruteForceThreshold (config d) * (7 / 10) = 0.7 * bruteForceThreshold (config d)"
    by simp
  then show ?thesis
    unfolding analyzeLogin_bruteForce calculateBruteForceRisk_def
              getFailedAttemptsInWindow_whole profileWithAttempt_failedAttempts Let_def m
    by (simp only:)
qed

lemma carol_prior: "priorFailedAttempts carolDetector ''carol'' = carolFailures"
  unfolding carolDetector_def analyzeMultiple_priorFailedAttempts newDetector_prior
  by (simp add: carolFailures_def)

lemma carol_config:
  "bruteForceThreshold (config carolDetector) = 5"
  "bruteForceWindow (config carolDetector) = 30"
  by (simp_all add: carolDetector_def analyzeMultiple_config newDetector_def defaultConfig_def)

theorem bruteForce_whole_minutes_witness:
  "0 < bruteForceThreshold (config carolDetector) \<and>
   bruteForce (factors (fst (analyzeLogin sampleEnv carolDetector
      (mkAttempt ''carol'' 900000 ''198.51.100.1'' True)))) = 70"
proof -
  have pos: "0 < bruteForceThreshold (config carolDetector)"
    by (simp add: carol_config)
  from bruteForce_whole_minutes [OF pos, of sampleEnv "mkAttempt ''carol'' 900000 ''198.51.100.1'' True"]
  have "bruteForce (factors (fst (analyzeLogin sampleEnv carolDetector
      (mkAttempt ''carol'' 900000 ''198.51.100.1'' True)))) = 70"
    by (simp add: carol_prior carol_config carolFailures_def wholeMinutes_def Let_def)
  with pos show ?thesis by simp
qed

text \<open>
  C3, as the specification words it, fails: carol failed five times, at minutes 0, 2, 4,
  6 and 8; a failed attempt at 30 minutes 30 seconds has five failures within 30
  minutes of it (itself included), which gives 70, but the code also counts the failure
  at minute 0, 30 whole minutes away, and scores 76.
\<close>

theorem bruteForce_exact_window_counterexample:
  "bruteForce (factors (fst (analyzeLogin sampleEnv carolDetector
      (mkAttempt ''carol'' 1830000 ''198.51.100.1'' False)))) = 76
   \<and> bruteForce_spec (config carolDetector)
        (priorFailedAttempts carolDetector ''carol'' @
           [mkAttempt ''carol'' 1830000 ''198.51.100.1'' False]) 1830000 = 70"
proof -
  have code: "bruteForce (factors (fst (analyzeLogin sampleEnv carolDetector
      (mkAttempt ''carol'' 1830000 ''198.51.100.1'' False)))) = 76"
    by (simp add: analyzeLogin_bruteForce calculateBruteForceRisk_def
                  getFailedAttemptsInWindow_whole profileWithAttempt_failedAttempts
                  carol_prior carol_config carolFailures_def wholeMinutes_def Math_min_def
                  Let_def)
  have spec: "bruteForce_spec (config carolDetector)
        (priorFailedAttempts carolDetector ''carol'' @
           [mkAttempt ''carol'' 1830000 ''198.51.100.1'' False]) 1830000 = 70"
    by (simp add: bruteForce_spec_def carol_prior carol_config carolFailures_def Let_def)
  from code spec show ?thesis by simp
qed

section \<open>A score below 0 under a negative threshold\<close>

lemma mallory_state:
  "config malloryDetector = negativeThreshold"
  "priorHistory malloryDetector ''mallory'' = [mkAttempt ''mallory'' 0 ''203.0.113.9'' False]"
  "priorFailedAttempts malloryDetector ''mallory'' = [mkAttempt ''mallory'' 0 ''203.0.113.9'' False]"
proof -
  show "config malloryDetector = negativeThreshold"
    by (simp add: malloryDetector_def analyzeLogin_config newDetector_def)
  show "priorHistory malloryDetector ''mallory'' = [mkAttempt ''mallory'' 0 ''203.0.113.9'' False]"
    by (simp add: malloryDetector_def analyzeLogin_priorHistory newDetector_prior)
  show "priorFailedAttempts malloryDetector ''mallory'' =
          [mkAttempt ''mallory'' 0 ''203.0.113.9'' False]"
    by (simp add: malloryDetector_def analyzeLogin_priorFailedAttempts newDetector_prior)
qed

lemma unknown_address: "getLocationFromIP sampleEnv ''203.0.113.9'' = None"
  by (simp add: getLocationFromIP_def sampleEnv_def sampleLookup_def)

text \<open>
  C6, without the condition on the configuration, fails: with the brute-force threshold
  -1, the second failed login of mallory counts two failures, the ratio is -2, the
  brute-force factor is 70 + (-2 - 1) * 30 = -20 and the overall risk is -6.
\<close>

theorem overallRisk_negative_counterexample:
  "bruteForceThreshold (config malloryDetector) = - 1
   \<and> bruteForce (factors (fst (analyzeLogin sampleEnv malloryDetector
         (mkAttempt ''mallory'' 60000 ''203.0.113.9'' False)))) = - 20
   \<and> overallRisk (fst (analyzeLogin sampleEnv malloryDetector
         (mkAttempt ''mallory'' 60000 ''203.0.113.9'' False))) = - 6"
proof -
  let ?a = "mkAttempt ''mallory'' 60000 ''203.0.113.9'' False"
  let ?fs = "factors (fst (analyzeLogin sampleEnv malloryDetector ?a))"
  have thr: "bruteForceThreshold (config malloryDetector) = - 1"
    by (simp add: mallory_state negativeThreshold_def)
  have win: "bruteForceWindow (config malloryDetector) = 30"
    by (simp add: mallory_state negativeThreshold_def defaultConfig_def)
  have lc: "locationChange ?fs = 0"
    by (simp add: analyzeLogin_factors calculateRiskFactors_locationChange
                  calculateLocationChangeRisk_def unknown_address)
  have it: "impossibleTravel ?fs = 0"
    by (simp add: analyzeLogin_impossibleTravel calculateImpossibleTravelRisk_def
                  unknown_address split: option.splits)
  have bf: "bruteForce ?fs = - 20"
    by (simp add: analyzeLogin_bruteForce calculateBruteForceRisk_def
                  getFailedAttemptsInWindow_whole profileWithAttempt_failedAttempts
                  mallory_state(3) thr win wholeMinutes_def Math_min_def Let_def)
  have ut: "unusualTime ?fs = 0"
    by (rule analyzeLogin_unusualTime_cold) (simp add: mallory_state(2))
  have ws: "weightedSum ?fs = - 6"
    by (simp add: weightedSum_def lc it bf ut)
  have "calculateOverallRisk ?fs = round (weightedSum ?fs)"
    by (rule calculateOverallRisk_exact) (simp_all add: lc it bf ut ws frac_def)
  then have "overallRisk (fst (analyzeLogin sampleEnv malloryDetector ?a)) = - 6"
    by (simp add: analyzeLogin_overallRisk ws)
  with thr bf show ?thesis by simp
qed

end
